theory Spec2Isabelle
  imports Complex_Main "HOL-Library.Char_ord" "HOL-Library.List_Lexorder"
begin

section \<open>Python values and errors\<close>

text \<open>
  The parser of \<^verbatim>\<open>aare_core/llm_parser.py\<close> works on dynamically typed Python values:
  facts, formula trees and extractor defaults are JSON-like data. \<open>VNone\<close> is Python's
  \<open>None\<close>. Python floats are modelled by exact rationals: rounding, overflow, infinities
  and NaN are outside the model. Text is modelled by ASCII strings. \<open>VResult v c s t\<close>
  is an object of the dataclass \<^verbatim>\<open>ExtractionResult\<close>, with its fields \<^verbatim>\<open>value\<close>,
  \<^verbatim>\<open>confidence\<close>, \<^verbatim>\<open>source\<close> and \<^verbatim>\<open>extractor_type\<close>.
\<close>

datatype val =
    VNone
  | VBool bool
  | VInt int
  | VFloat rat
  | VStr string
  | VList "val list"
  | VDict "(string \<times> val) list"
  | VResult val rat string "string option"

datatype py_error =
    ValueError
  | TypeError
  | KeyError
  | IndexError
  | AttributeError
  | ZeroDivisionError

section \<open>Python strings\<close>

definition upper_letters :: string where
  "upper_letters = ''ABCDEFGHIJKLMNOPQRSTUVWXYZ''"

definition lower_letters :: string where
  "lower_letters = ''abcdefghijklmnopqrstuvwxyz''"


definition lower_char :: "char \<Rightarrow> char" where
  "lower_char c =
     (case map_of (zip upper_letters lower_letters) c of Some d \<Rightarrow> d | None \<Rightarrow> c)"

text \<open>\<^verbatim>\<open>str.lower()\<close> on ASCII text.\<close>

definition lower :: "string \<Rightarrow> string" where
  "lower s = map lower_char s"

fun starts_with :: "string \<Rightarrow> string \<Rightarrow> bool" where
  "starts_with [] s = True"
| "starts_with (p # ps) [] = False"
| "starts_with (p # ps) (c # cs) = (p = c \<and> starts_with ps cs)"

text \<open>\<^verbatim>\<open>s.find(sub)\<close>: the lowest index where \<open>sub\<close> occurs in \<open>s\<close>, or \<open>-1\<close>.\<close>

fun str_find :: "string \<Rightarrow> string \<Rightarrow> int" where
  "str_find sub [] = (if sub = [] then 0 else -1)"
| "str_find sub (c # cs) =
     (if starts_with sub (c # cs) then 0
      else (let r = str_find sub cs in if r < 0 then -1 else r + 1))"

text \<open>\<^verbatim>\<open>sub in s\<close> for strings.\<close>

definition py_in :: "string \<Rightarrow> string \<Rightarrow> bool" where
  "py_in sub s = (0 \<le> str_find sub s)"

text \<open>\<^verbatim>\<open>s[a:b]\<close>: negative indices count from the end, both are clamped.\<close>

definition py_slice :: "string \<Rightarrow> int \<Rightarrow> int \<Rightarrow> string" where
  "py_slice s a b =
     (let n = int (length s);
          a' = (if a < 0 then max 0 (a + n) else min a n);
          b' = (if b < 0 then max 0 (b + n) else min b n)
      in take (nat (b' - a')) (drop (nat a') s))"

definition is_space :: "char \<Rightarrow> bool" where
  "is_space c = (c \<in> set [CHR '' '', CHR 0x09, CHR 0x0A, CHR 0x0B, CHR 0x0C, CHR 0x0D,
                            CHR 0x1C, CHR 0x1D, CHR 0x1E, CHR 0x1F])"

text \<open>\<^verbatim>\<open>s.strip()\<close>.\<close>

definition strip :: "string \<Rightarrow> string" where
  "strip s = rev (dropWhile is_space (rev (dropWhile is_space s)))"

text \<open>\<^verbatim>\<open>s.split()\<close>: the maximal runs of non-whitespace characters.\<close>

fun split_ws :: "string \<Rightarrow> string \<Rightarrow> string list" where
  "split_ws cur [] = (if cur = [] then [] else [cur])"
| "split_ws cur (c # cs) =
     (if is_space c then (if cur = [] then split_ws [] cs else cur # split_ws [] cs)
      else split_ws (cur @ [c]) cs)"

text \<open>\<^verbatim>\<open>re.split(r'[-/]', s)\<close>: a cut at every hyphen and every slash.\<close>

fun split_date :: "string \<Rightarrow> string \<Rightarrow> string list" where
  "split_date cur [] = [cur]"
| "split_date cur (c # cs) =
     (if c = CHR ''-'' \<or> c = CHR ''/'' then cur # split_date [] cs
      else split_date (cur @ [c]) cs)"

section \<open>Python numbers\<close>

definition is_digit :: "char \<Rightarrow> bool" where
  "is_digit c = (c \<in> set ''0123456789'')"

definition digit_val :: "char \<Rightarrow> nat" where
  "digit_val c =
     (case map_of (zip ''0123456789'' [0, 1, 2, 3, 4, 5, 6, 7, 8, 9]) c of
        Some d \<Rightarrow> d | None \<Rightarrow> 0)"

definition digits_val :: "string \<Rightarrow> nat" where
  "digits_val s = foldl (\<lambda>a c. 10 * a + digit_val c) 0 s"

text \<open>
  A digit group of a Python numeric literal: digits, with single underscores between
  digits only.
\<close>

definition valid_digits :: "string \<Rightarrow> bool" where
  "valid_digits s =
     (s \<noteq> [] \<and> list_all (\<lambda>c. is_digit c \<or> c = CHR ''_'') s \<and>
      is_digit (hd s) \<and> is_digit (last s) \<and> \<not> py_in ''__'' s)"

definition split_sign :: "string \<Rightarrow> bool \<times> string" where
  "split_sign s =
     (case s of
        [] \<Rightarrow> (False, [])
      | c # cs \<Rightarrow>
          if c = CHR ''-'' then (True, cs)
          else if c = CHR ''+'' then (False, cs)
          else (False, s))"

text \<open>\<^verbatim>\<open>int(s)\<close> for a string: \<open>ValueError\<close> unless \<open>s\<close> is a decimal integer literal.\<close>

definition py_int :: "string \<Rightarrow> py_error + int" where
  "py_int s =
     (let (neg, body) = split_sign (strip s)
      in if valid_digits body
         then Inr ((if neg then -1 else 1) * int (digits_val (filter is_digit body)))
         else Inl ValueError)"

text \<open>The first cut of \<open>s\<close> at the character \<open>c\<close>, if \<open>c\<close> occurs.\<close>

definition cut_at :: "char \<Rightarrow> string \<Rightarrow> string \<times> string option" where
  "cut_at c s =
     (if c \<in> set s then (takeWhile (\<lambda>x. x \<noteq> c) s, Some (tl (dropWhile (\<lambda>x. x \<noteq> c) s)))
      else (s, None))"

definition group_ok :: "string \<Rightarrow> bool" where
  "group_ok g = (g = [] \<or> valid_digits g)"

definition group_val :: "string \<Rightarrow> nat" where
  "group_val g = digits_val (filter is_digit g)"

text \<open>
  \<^verbatim>\<open>float(s)\<close> for a string holding a finite decimal literal (sign, integer part,
  fraction, exponent); every other string is a \<open>ValueError\<close>. The literals
  \<^verbatim>\<open>inf\<close> and \<^verbatim>\<open>nan\<close>, which Python also accepts, are outside the model.
\<close>

definition py_float :: "string \<Rightarrow> py_error + rat" where
  "py_float s =
     (let (neg, body) = split_sign (strip s);
          (mant, ex) = cut_at CHR ''e'' (lower body);
          (ip, fp) = cut_at CHR ''.'' mant;
          fr = (case fp of None \<Rightarrow> [] | Some f \<Rightarrow> f);
          (eneg, ebody) = (case ex of None \<Rightarrow> (False, ''0'') | Some e \<Rightarrow> split_sign e)
      in if group_ok ip \<and> group_ok fr \<and> \<not> (ip = [] \<and> fr = []) \<and> valid_digits ebody
         then
           (let m = of_nat (group_val ip)
                    + of_nat (group_val fr) / 10 ^ length (filter is_digit fr);
                sc = (10::rat) ^ group_val ebody
            in Inr ((if neg then -1 else 1) * (if eneg then m / sc else m * sc)))
         else Inl ValueError)"

text \<open>\<^verbatim>\<open>int(x)\<close> for a float: truncation towards zero.\<close>

definition trunc_rat :: "rat \<Rightarrow> int" where
  "trunc_rat r = (if 0 \<le> r then \<lfloor>r\<rfloor> else \<lceil>r\<rceil>)"

definition digit_char :: "nat \<Rightarrow> char" where
  "digit_char d = ''0123456789'' ! (d mod 10)"

fun digits_of_nat :: "nat \<Rightarrow> string" where
  "digits_of_nat n =
     (if n < 10 then [digit_char n] else digits_of_nat (n div 10) @ [digit_char (n mod 10)])"

declare digits_of_nat.simps [simp del]

text \<open>\<^verbatim>\<open>str(i)\<close> and the format \<^verbatim>\<open>{i:02d}\<close> for an integer.\<close>

definition str_int :: "int \<Rightarrow> string" where
  "str_int i = (if i < 0 then CHR ''-'' # digits_of_nat (nat (- i)) else digits_of_nat (nat i))"

definition fmt_02d :: "int \<Rightarrow> string" where
  "fmt_02d i =
     (if i < 0 then str_int i
      else (let d = digits_of_nat (nat i) in if length d < 2 then CHR ''0'' # d else d))"

section \<open>The Python library the parser calls\<close>

text \<open>
  A match object of \<^verbatim>\<open>re\<close>: \<^verbatim>\<open>start()\<close>, \<^verbatim>\<open>end()\<close>, \<^verbatim>\<open>group(0)\<close> and
  \<^verbatim>\<open>groups()\<close>, where a group that took no part in the match is \<open>None\<close>.
\<close>

record re_match =
  m_start :: nat
  m_end :: nat
  m_group0 :: string
  m_groups :: "string option list"

text \<open>An element of \<^verbatim>\<open>findall\<close>: a string, or a tuple of strings for several groups.\<close>

datatype findall_item = FStr string | FTuple "string list"

text \<open>
  The regular expression engine, \<^verbatim>\<open>datetime.strptime\<close>/\<^verbatim>\<open>strftime\<close> and
  \<^verbatim>\<open>str()\<close> are parameters of the model. \<open>re_compile\<close> stands for
  \<^verbatim>\<open>re.compile(pattern, re.IGNORECASE)\<close> and is \<open>None\<close> where Python raises
  \<^verbatim>\<open>re.error\<close>; \<open>lib_strptime\<close> is \<open>None\<close> where Python raises \<open>ValueError\<close>.
\<close>

record ('r, 'dt) pylib =
  re_compile :: "string \<Rightarrow> 'r option"
  re_search :: "'r \<Rightarrow> string \<Rightarrow> re_match option"
  re_findall :: "'r \<Rightarrow> string \<Rightarrow> findall_item list"
  lib_strptime :: "string \<Rightarrow> string \<Rightarrow> 'dt option"
  lib_strftime :: "'dt \<Rightarrow> string \<Rightarrow> string"
  lib_str :: "val \<Rightarrow> string"

text \<open>
  \<^verbatim>\<open>_get_compiled_pattern\<close>. The module's cache only memoises \<open>re_compile\<close>, a
  function of the pattern, and a failed compilation is logged and never cached; the
  result is that of \<open>re_compile\<close> with or without the cache.
\<close>

definition get_compiled_pattern :: "('r, 'dt) pylib \<Rightarrow> string \<Rightarrow> 'r option" where
  "get_compiled_pattern lib pat = re_compile lib pat"

text \<open>The truth value Python gives an optional pattern or format string.\<close>

definition truthy_str :: "string option \<Rightarrow> bool" where
  "truthy_str p = (case p of None \<Rightarrow> False | Some s \<Rightarrow> s \<noteq> [])"

text \<open>\<^verbatim>\<open>match.group(1) if match.groups() else match.group(0)\<close>.\<close>

definition group1_or_0 :: "re_match \<Rightarrow> string option" where
  "group1_or_0 m = (case m_groups m of [] \<Rightarrow> Some (m_group0 m) | g # _ \<Rightarrow> g)"

section \<open>Ontology documents\<close>

text \<open>The keyword entry of an enum choice: one string, or a list of strings.\<close>

datatype kw_spec = KwOne string | KwMany "string list"

text \<open>
  An extractor of a well-typed ontology document. Each field is what the parser reads
  with \<^verbatim>\<open>extractor.get(...)\<close>, with the default the parser passes where the key
  is missing (\<open>[]\<close> for the keyword lists, \<open>True\<close> for \<open>check_negation\<close>,
  \<^verbatim>\<open>'string'\<close> for \<open>item_type\<close>, \<open>None\<close> elsewhere).
\<close>

record extractor =
  ex_type :: "string option"
  ex_computed :: bool
  ex_pattern :: "string option"
  ex_keywords :: "string list"
  ex_negation_words :: "string list"
  ex_check_negation :: bool
  ex_format :: "string option"
  ex_item_type :: string
  ex_choices :: "(string \<times> kw_spec) list"
  ex_default :: val
  ex_formula :: val

text \<open>An extractor that sets only its type; the other keys are missing.\<close>

definition plain_extractor :: "string \<Rightarrow> extractor" where
  "plain_extractor t =
     \<lparr> ex_type = Some t, ex_computed = False, ex_pattern = None, ex_keywords = [],
       ex_negation_words = [], ex_check_negation = True, ex_format = None,
       ex_item_type = ''string'', ex_choices = [], ex_default = VNone,
       ex_formula = VNone \<rparr>"

text \<open>
  The \<^verbatim>\<open>has_approval\<close> extractor of \<^verbatim>\<open>_get_default_ontology\<close>
  (\<^verbatim>\<open>handlers/ontology_loader.py\<close>): a boolean with two keywords and no negation words.
\<close>

definition has_approval :: extractor where
  "has_approval = (plain_extractor ''boolean'') \<lparr> ex_keywords := [''approved'', ''approve''] \<rparr>"

section \<open>Boolean extraction\<close>

text \<open>\<^verbatim>\<open>any(neg in context for neg in negation_words)\<close>.\<close>

definition any_negation :: "string list \<Rightarrow> string \<Rightarrow> bool" where
  "any_negation negs ctx = list_ex (\<lambda>neg. py_in neg ctx) negs"

text \<open>
  The keyword loop of \<^verbatim>\<open>_extract_field\<close> for a boolean extractor: each keyword is
  looked up as it is written in the lowercased text; a hit with a negation word in the
  window of 15 characters before the keyword moves on to the next keyword.
\<close>

fun keyword_scan :: "string \<Rightarrow> bool \<Rightarrow> string list \<Rightarrow> string list \<Rightarrow> bool" where
  "keyword_scan text_lower check_negation negs [] = False"
| "keyword_scan text_lower check_negation negs (kw # kws) =
     (if py_in kw text_lower then
        (if check_negation \<and> negs \<noteq> [] \<and>
            (let kw_pos = str_find kw text_lower;
                 context_start = max 0 (kw_pos - 15);
                 context_end = kw_pos + int (length kw)
             in any_negation negs (py_slice text_lower context_start context_end))
         then keyword_scan text_lower check_negation negs kws
         else True)
      else keyword_scan text_lower check_negation negs kws)"

text \<open>
  The boolean branch of \<^verbatim>\<open>_extract_field\<close>: a pattern that compiles decides alone
  (with the negation window of 30 characters on both sides of the match); with no
  pattern, or one that does not compile, the keywords decide.
\<close>

definition extract_boolean ::
    "('r, 'dt) pylib \<Rightarrow> string \<Rightarrow> string \<Rightarrow> extractor \<Rightarrow> bool" where
  "extract_boolean lib txt text_lower ex =
     (let negation_words = ex_negation_words ex;
          check_negation = ex_check_negation ex;
          by_keywords = keyword_scan text_lower check_negation negation_words (ex_keywords ex)
      in if truthy_str (ex_pattern ex) then
           (case get_compiled_pattern lib (the (ex_pattern ex)) of
              None \<Rightarrow> by_keywords
            | Some compiled \<Rightarrow>
                (case re_search lib compiled txt of
                   None \<Rightarrow> False
                 | Some m \<Rightarrow>
                     (if check_negation \<and> negation_words \<noteq> [] \<and>
                         (let context_start = max 0 (int (m_start m) - 30);
                              context_end = min (int (length text_lower)) (int (m_end m) + 30)
                          in any_negation negation_words
                               (py_slice text_lower context_start context_end))
                      then False else True)))
         else by_keywords)"

section \<open>Numeric and string extraction\<close>

text \<open>\<^verbatim>\<open>str.replace(',', '')\<close>.\<close>

definition drop_commas :: "string \<Rightarrow> string" where
  "drop_commas s = filter (\<lambda>c. c \<noteq> CHR '','') s"

text \<open>
  The suffix test of \<^verbatim>\<open>_parse_numeric\<close> for money: the letters are looked for
  anywhere in the lowercased slice of the original text, \<open>k\<close> before \<open>m\<close> before \<open>b\<close>.
\<close>

definition money_multiplier :: "string \<Rightarrow> int" where
  "money_multiplier match_text =
     (if py_in ''k'' match_text then 1000
      else if py_in ''m'' match_text then 1000000
      else if py_in ''b'' match_text then 1000000000
      else 1)"

text \<open>
  \<^verbatim>\<open>_parse_numeric\<close>. A first group that took no part in the match is \<open>None\<close>, and
  \<^verbatim>\<open>None.replace\<close> raises \<open>AttributeError\<close>; \<^verbatim>\<open>int\<close> and \<^verbatim>\<open>float\<close> raise
  \<open>ValueError\<close>. Nothing here catches either.
\<close>

definition parse_numeric :: "re_match \<Rightarrow> string \<Rightarrow> string \<Rightarrow> py_error + val" where
  "parse_numeric m original_text value_type =
     (case hd (m_groups m) of
        None \<Rightarrow> Inl AttributeError
      | Some g \<Rightarrow>
          (let value_str = drop_commas g
           in if value_type = ''int'' then
                (case py_int value_str of Inl e \<Rightarrow> Inl e | Inr i \<Rightarrow> Inr (VInt i))
              else if value_type = ''float'' \<or> value_type = ''percentage'' then
                (case py_float value_str of Inl e \<Rightarrow> Inl e | Inr r \<Rightarrow> Inr (VFloat r))
              else if value_type = ''money'' then
                (let match_text = lower (py_slice original_text (int (m_start m)) (int (m_end m)));
                     multiplier = money_multiplier match_text
                 in case py_float value_str of
                      Inl e \<Rightarrow> Inl e
                    | Inr r \<Rightarrow> Inr (VFloat (r * of_int multiplier)))
              else Inr VNone))"

text \<open>The branch of \<^verbatim>\<open>_extract_field\<close> for int, float, money and percentage.\<close>

definition extract_numeric ::
    "('r, 'dt) pylib \<Rightarrow> string \<Rightarrow> string \<Rightarrow> string \<Rightarrow> extractor \<Rightarrow> py_error + val" where
  "extract_numeric lib txt text_lower extractor_type ex =
     (if \<not> truthy_str (ex_pattern ex) then Inr VNone
      else
        (case get_compiled_pattern lib (the (ex_pattern ex)) of
           None \<Rightarrow> Inr VNone
         | Some compiled \<Rightarrow>
             (case re_search lib compiled text_lower of
                None \<Rightarrow> Inr VNone
              | Some m \<Rightarrow>
                  (if m_groups m \<noteq> [] then parse_numeric m txt extractor_type
                   else Inr VNone))))"

definition opt_str :: "string option \<Rightarrow> val" where
  "opt_str s = (case s of None \<Rightarrow> VNone | Some t \<Rightarrow> VStr t)"

text \<open>The branch of \<^verbatim>\<open>_extract_field\<close> for strings.\<close>

definition extract_string :: "('r, 'dt) pylib \<Rightarrow> string \<Rightarrow> extractor \<Rightarrow> val" where
  "extract_string lib text_lower ex =
     (if truthy_str (ex_pattern ex) then
        (case get_compiled_pattern lib (the (ex_pattern ex)) of
           None \<Rightarrow> VNone
         | Some compiled \<Rightarrow>
             (case re_search lib compiled text_lower of
                None \<Rightarrow> VNone
              | Some m \<Rightarrow> opt_str (group1_or_0 m)))
      else VNone)"

section \<open>Date and datetime extraction\<close>

definition backslash :: string where
  "backslash = [CHR 0x5C]"

definition months_re :: string where
  "months_re = ''(?:Jan(?:uary)?|Feb(?:ruary)?|Mar(?:ch)?|Apr(?:il)?|May|Jun(?:e)?|Jul(?:y)?|Aug(?:ust)?|Sep(?:tember)?|Oct(?:ober)?|Nov(?:ember)?|Dec(?:ember)?)''"

text \<open>The table \<^verbatim>\<open>DATE_PATTERNS\<close>: each regular expression with its format.\<close>

definition DATE_PATTERNS :: "(string \<times> string option) list" where
  "DATE_PATTERNS =
     [(backslash @ ''b('' @ backslash @ ''d{4})[-/]('' @ backslash @ ''d{1,2})[-/]('' @ backslash @ ''d{1,2})'' @ backslash @ ''b'',
         Some ''%Y-%m-%d''),
      (backslash @ ''b('' @ backslash @ ''d{1,2})[-/]('' @ backslash @ ''d{1,2})[-/]('' @ backslash @ ''d{4})'' @ backslash @ ''b'',
         Some ''%m-%d-%Y''),
      (backslash @ ''b('' @ backslash @ ''d{1,2})[-/]('' @ backslash @ ''d{1,2})[-/]('' @ backslash @ ''d{2})'' @ backslash @ ''b'',
         Some ''%m-%d-%y''),
      (backslash @ ''b('' @ months_re @ backslash @ ''s+'' @ backslash @ ''d{1,2},?'' @ backslash @ ''s+'' @ backslash @ ''d{4})''
          @ backslash @ ''b'', None),
      (backslash @ ''b('' @ backslash @ ''d{1,2}'' @ backslash @ ''s+'' @ months_re @ backslash @ ''s+'' @ backslash @ ''d{4})''
          @ backslash @ ''b'', None)]"

text \<open>The table \<^verbatim>\<open>DATETIME_PATTERNS\<close>; its second components are not read.\<close>

definition DATETIME_PATTERNS :: "string list" where
  "DATETIME_PATTERNS =
     [backslash @ ''b('' @ backslash @ ''d{4}[-/]'' @ backslash @ ''d{1,2}[-/]'' @ backslash @ ''d{1,2}[T'' @ backslash @ ''s]''
        @ backslash @ ''d{1,2}:'' @ backslash @ ''d{2}(?::'' @ backslash @ ''d{2})?(?:'' @ backslash
        @ ''s*(?:AM|PM|am|pm))?)'' @ backslash @ ''b'',
      backslash @ ''b('' @ backslash @ ''d{1,2}[-/]'' @ backslash @ ''d{1,2}[-/]'' @ backslash @ ''d{4}'' @ backslash @ ''s+''
        @ backslash @ ''d{1,2}:'' @ backslash @ ''d{2}(?::'' @ backslash @ ''d{2})?'' @ backslash
        @ ''s*(?:AM|PM|am|pm)?)'' @ backslash @ ''b'']"

text \<open>
  The loop over \<^verbatim>\<open>formats_to_try\<close>: the first format \<^verbatim>\<open>strptime\<close> accepts gives
  the result, printed by \<^verbatim>\<open>strftime\<close>.
\<close>

fun try_formats :: "('r, 'dt) pylib \<Rightarrow> string \<Rightarrow> string \<Rightarrow> string list \<Rightarrow> string option" where
  "try_formats lib out_fmt s [] = None"
| "try_formats lib out_fmt s (f # fs) =
     (case lib_strptime lib s f of
        Some dt \<Rightarrow> Some (lib_strftime lib dt out_fmt)
      | None \<Rightarrow> try_formats lib out_fmt s fs)"

definition date_formats_to_try :: "string list" where
  "date_formats_to_try =
     [''%Y-%m-%d'', ''%Y/%m/%d'', ''%m-%d-%Y'', ''%m/%d/%Y'', ''%m-%d-%y'', ''%m/%d/%y'',
      ''%B %d, %Y'', ''%B %d %Y'', ''%b %d, %Y'', ''%b %d %Y'', ''%d %B %Y'', ''%d %b %Y'']"

text \<open>
  The explicit formats of \<^verbatim>\<open>_normalize_date\<close>, inside its \<^verbatim>\<open>try\<close>: \<open>Inr (Some s)\<close>
  is the returned string, \<open>Inr None\<close> falls through to the formats to try, and a
  \<open>ValueError\<close> of \<^verbatim>\<open>int\<close> is caught by the caller below.
\<close>

definition explicit_date :: "string \<Rightarrow> string \<Rightarrow> py_error + string option" where
  "explicit_date date_str fmt =
     (let parts = split_date [] date_str
      in if fmt = ''%Y-%m-%d'' then
           (if length parts = 3 then
              (case py_int (parts ! 1) of
                 Inl e \<Rightarrow> Inl e
               | Inr m \<Rightarrow>
                   (case py_int (parts ! 2) of
                      Inl e \<Rightarrow> Inl e
                    | Inr d \<Rightarrow> Inr (Some (parts ! 0 @ ''-'' @ fmt_02d m @ ''-'' @ fmt_02d d))))
            else Inr None)
         else if fmt = ''%m-%d-%Y'' then
           (if length parts = 3 then
              (case py_int (parts ! 0) of
                 Inl e \<Rightarrow> Inl e
               | Inr m \<Rightarrow>
                   (case py_int (parts ! 1) of
                      Inl e \<Rightarrow> Inl e
                    | Inr d \<Rightarrow> Inr (Some (parts ! 2 @ ''-'' @ fmt_02d m @ ''-'' @ fmt_02d d))))
            else Inr None)
         else if fmt = ''%m-%d-%y'' then
           (if length parts = 3 then
              (case py_int (parts ! 2) of
                 Inl e \<Rightarrow> Inl e
               | Inr y \<Rightarrow>
                   (let year = (if y < 50 then y + 2000 else y + 1900)
                    in (case py_int (parts ! 0) of
                          Inl e \<Rightarrow> Inl e
                        | Inr m \<Rightarrow>
                            (case py_int (parts ! 1) of
                               Inl e \<Rightarrow> Inl e
                             | Inr d \<Rightarrow>
                                 Inr (Some (str_int year @ ''-'' @ fmt_02d m @ ''-''
                                            @ fmt_02d d))))))
            else Inr None)
         else Inr None)"

text \<open>\<^verbatim>\<open>_normalize_date\<close>.\<close>

definition normalize_date :: "('r, 'dt) pylib \<Rightarrow> string \<Rightarrow> string option \<Rightarrow> string option" where
  "normalize_date lib date_str0 fmt =
     (let date_str = strip date_str0;
          fallback = try_formats lib ''%Y-%m-%d'' date_str date_formats_to_try
      in if truthy_str fmt then
           (case explicit_date date_str (the fmt) of
              Inr (Some r) \<Rightarrow> Some r
            | Inr None \<Rightarrow> fallback
            | Inl e \<Rightarrow> fallback)
         else fallback)"

text \<open>\<^verbatim>\<open>str.replace('T', ' ')\<close>.\<close>

definition t_to_space :: "string \<Rightarrow> string" where
  "t_to_space s = map (\<lambda>c. if c = CHR ''T'' then CHR '' '' else c) s"

definition datetime_formats_to_try :: "string list" where
  "datetime_formats_to_try =
     [''%Y-%m-%d %H:%M:%S'', ''%Y-%m-%d %H:%M'', ''%Y/%m/%d %H:%M:%S'', ''%Y/%m/%d %H:%M'',
      ''%m-%d-%Y %I:%M %p'', ''%m-%d-%Y %I:%M:%S %p'', ''%m/%d/%Y %I:%M %p'',
      ''%m/%d/%Y %I:%M:%S %p'', ''%m-%d-%Y %H:%M'', ''%m/%d/%Y %H:%M'']"

text \<open>\<^verbatim>\<open>_normalize_datetime\<close>.\<close>

definition normalize_datetime :: "('r, 'dt) pylib \<Rightarrow> string \<Rightarrow> string option" where
  "normalize_datetime lib dt_str =
     try_formats lib ''%Y-%m-%dT%H:%M:%S'' (t_to_space (strip dt_str)) datetime_formats_to_try"

text \<open>
  The keyword window of \<^verbatim>\<open>_extract_date\<close>: the 100 characters from the first hit of
  the first keyword that occurs, else the whole text.
\<close>

fun keyword_window :: "string \<Rightarrow> string list \<Rightarrow> string" where
  "keyword_window txt [] = txt"
| "keyword_window txt (keyword # kws) =
     (let kw_lower = lower keyword; text_lower = lower txt
      in if py_in kw_lower text_lower
         then (let pos = str_find kw_lower text_lower in py_slice txt pos (pos + 100))
         else keyword_window txt kws)"

text \<open>The loop of \<^verbatim>\<open>_extract_date\<close> over the standard patterns.\<close>

fun scan_date_patterns ::
    "('r, 'dt) pylib \<Rightarrow> string \<Rightarrow> (string \<times> string option) list \<Rightarrow> string option" where
  "scan_date_patterns lib search_text [] = None"
| "scan_date_patterns lib search_text ((pat, fmt) # rest) =
     (case get_compiled_pattern lib pat of
        None \<Rightarrow> scan_date_patterns lib search_text rest
      | Some compiled \<Rightarrow>
          (case re_search lib compiled search_text of
             None \<Rightarrow> scan_date_patterns lib search_text rest
           | Some m \<Rightarrow>
               (case normalize_date lib (m_group0 m) fmt of
                  None \<Rightarrow> scan_date_patterns lib search_text rest
                | Some normalized \<Rightarrow>
                    if normalized \<noteq> [] then Some normalized
                    else scan_date_patterns lib search_text rest)))"

text \<open>
  The custom pattern of a date or datetime extractor: \<open>None\<close> when there is no pattern,
  it does not compile or it does not match; else the matched string, which is Python's
  \<open>None\<close> (\<open>Some None\<close>) for a first group that took no part in the match.
\<close>

definition custom_match :: "('r, 'dt) pylib \<Rightarrow> string \<Rightarrow> extractor \<Rightarrow> string option option" where
  "custom_match lib txt ex =
     (if truthy_str (ex_pattern ex) then
        (case get_compiled_pattern lib (the (ex_pattern ex)) of
           None \<Rightarrow> None
         | Some compiled \<Rightarrow>
             (case re_search lib compiled txt of
                None \<Rightarrow> None
              | Some m \<Rightarrow> Some (group1_or_0 m)))
      else None)"

text \<open>\<^verbatim>\<open>_extract_date\<close>; \<^verbatim>\<open>None.strip()\<close> raises \<open>AttributeError\<close>.\<close>

definition extract_date :: "('r, 'dt) pylib \<Rightarrow> string \<Rightarrow> extractor \<Rightarrow> py_error + val" where
  "extract_date lib txt ex =
     (case custom_match lib txt ex of
        Some None \<Rightarrow> Inl AttributeError
      | Some (Some date_str) \<Rightarrow> Inr (opt_str (normalize_date lib date_str (ex_format ex)))
      | None \<Rightarrow>
          Inr (opt_str (scan_date_patterns lib (keyword_window txt (ex_keywords ex))
                          DATE_PATTERNS)))"

text \<open>The loop of \<^verbatim>\<open>_extract_datetime\<close> over the standard patterns.\<close>

fun scan_datetime_patterns ::
    "('r, 'dt) pylib \<Rightarrow> string \<Rightarrow> string list \<Rightarrow> py_error + string option" where
  "scan_datetime_patterns lib txt [] = Inr None"
| "scan_datetime_patterns lib txt (pat # rest) =
     (case get_compiled_pattern lib pat of
        None \<Rightarrow> scan_datetime_patterns lib txt rest
      | Some compiled \<Rightarrow>
          (case re_search lib compiled txt of
             None \<Rightarrow> scan_datetime_patterns lib txt rest
           | Some m \<Rightarrow>
               (case group1_or_0 m of
                  None \<Rightarrow> Inl AttributeError
                | Some dt_str \<Rightarrow>
                    (case normalize_datetime lib dt_str of
                       None \<Rightarrow> scan_datetime_patterns lib txt rest
                     | Some normalized \<Rightarrow>
                         if normalized \<noteq> [] then Inr (Some normalized)
                         else scan_datetime_patterns lib txt rest))))"

text \<open>\<^verbatim>\<open>_extract_datetime\<close>.\<close>

definition extract_datetime :: "('r, 'dt) pylib \<Rightarrow> string \<Rightarrow> extractor \<Rightarrow> py_error + val" where
  "extract_datetime lib txt ex =
     (case custom_match lib txt ex of
        Some None \<Rightarrow> Inl AttributeError
      | Some (Some dt_str) \<Rightarrow> Inr (opt_str (normalize_datetime lib dt_str))
      | None \<Rightarrow>
          (case scan_datetime_patterns lib txt DATETIME_PATTERNS of
             Inl e \<Rightarrow> Inl e
           | Inr (Some normalized) \<Rightarrow> Inr (VStr normalized)
           | Inr None \<Rightarrow>
               (case extract_date lib txt ex of
                  Inl e \<Rightarrow> Inl e
                | Inr (VStr date_result) \<Rightarrow>
                    if date_result \<noteq> [] then Inr (VStr (date_result @ ''T00:00:00''))
                    else Inr VNone
                | Inr other \<Rightarrow> Inr VNone)))"

section \<open>List and enum extraction\<close>

text \<open>
  \<^verbatim>\<open>_convert_list_item\<close>: a \<open>ValueError\<close> or \<open>TypeError\<close> of the conversion is
  caught, and the item is then \<open>None\<close> (the item type is not \<^verbatim>\<open>'string'\<close> on
  those paths).
\<close>

definition convert_list_item :: "string \<Rightarrow> string \<Rightarrow> py_error + val" where
  "convert_list_item value0 item_type =
     (let v = drop_commas (strip value0)
      in if item_type = ''int'' then
           (case py_float v of
              Inr r \<Rightarrow> Inr (VInt (trunc_rat r))
            | Inl e \<Rightarrow> if e = ValueError \<or> e = TypeError then Inr VNone else Inl e)
         else if item_type = ''float'' then
           (case py_float v of
              Inr r \<Rightarrow> Inr (VFloat r)
            | Inl e \<Rightarrow> if e = ValueError \<or> e = TypeError then Inr VNone else Inl e)
         else Inr (VStr v))"

text \<open>\<^verbatim>\<open>match if isinstance(match, str) else match[0] if match else None\<close>.\<close>

definition findall_value :: "findall_item \<Rightarrow> string option" where
  "findall_value it =
     (case it of
        FStr s \<Rightarrow> Some s
      | FTuple [] \<Rightarrow> None
      | FTuple (g # gs) \<Rightarrow> Some g)"

fun convert_matches :: "findall_item list \<Rightarrow> string \<Rightarrow> py_error + val list" where
  "convert_matches [] item_type = Inr []"
| "convert_matches (it # its) item_type =
     (case findall_value it of
        None \<Rightarrow> convert_matches its item_type
      | Some v \<Rightarrow>
          if v = [] then convert_matches its item_type
          else
            (case convert_list_item v item_type of
               Inl e \<Rightarrow> Inl e
             | Inr converted \<Rightarrow>
                 (case convert_matches its item_type of
                    Inl e \<Rightarrow> Inl e
                  | Inr rest \<Rightarrow> Inr (if converted = VNone then rest else converted # rest))))"

text \<open>\<^verbatim>\<open>_extract_list\<close>.\<close>

definition extract_list ::
    "('r, 'dt) pylib \<Rightarrow> string \<Rightarrow> string \<Rightarrow> extractor \<Rightarrow> py_error + val" where
  "extract_list lib txt text_lower ex =
     (let item_type = ex_item_type ex;
          found =
            (if truthy_str (ex_pattern ex) then
               (case get_compiled_pattern lib (the (ex_pattern ex)) of
                  None \<Rightarrow> Inr []
                | Some compiled \<Rightarrow>
                    convert_matches
                      (re_findall lib compiled (if item_type \<noteq> ''string'' then txt else text_lower))
                      item_type)
             else Inr [])
      in case found of
           Inl e \<Rightarrow> Inl e
         | Inr results0 \<Rightarrow>
             (let results =
                    (if results0 = []
                     then map VStr (filter (\<lambda>keyword. py_in (lower keyword) text_lower)
                                      (ex_keywords ex))
                     else results0)
              in Inr (if results = [] then VNone else VList results)))"

definition kw_list :: "kw_spec \<Rightarrow> string list" where
  "kw_list k = (case k of KwOne s \<Rightarrow> [s] | KwMany ss \<Rightarrow> ss)"

text \<open>\<^verbatim>\<open>_extract_enum\<close>.\<close>

fun scan_choices :: "string \<Rightarrow> (string \<times> kw_spec) list \<Rightarrow> string option" where
  "scan_choices text_lower [] = None"
| "scan_choices text_lower ((choice_value, keywords) # rest) =
     (if list_ex (\<lambda>keyword. py_in (lower keyword) text_lower) (kw_list keywords)
      then Some choice_value
      else scan_choices text_lower rest)"

definition extract_enum :: "string \<Rightarrow> extractor \<Rightarrow> val" where
  "extract_enum text_lower ex =
     (case scan_choices text_lower (ex_choices ex) of
        Some choice_value \<Rightarrow> VStr choice_value
      | None \<Rightarrow> ex_default ex)"

section \<open>The extractor engine\<close>

text \<open>
  \<^verbatim>\<open>_extract_field\<close>: \<open>Inr VNone\<close> is Python's \<open>None\<close> (no fact), \<open>Inl e\<close> an
  exception that leaves the function.
\<close>

definition extract_field ::
    "('r, 'dt) pylib \<Rightarrow> string \<Rightarrow> string \<Rightarrow> extractor \<Rightarrow> py_error + val" where
  "extract_field lib txt text_lower ex =
     (let extractor_type = ex_type ex
      in if extractor_type = Some ''boolean'' then
           Inr (VBool (extract_boolean lib txt text_lower ex))
         else if extractor_type \<in> {Some ''int'', Some ''float'', Some ''money'', Some ''percentage''}
           then extract_numeric lib txt text_lower (the extractor_type) ex
         else if extractor_type = Some ''string'' then Inr (extract_string lib text_lower ex)
         else if extractor_type = Some ''date'' then extract_date lib txt ex
         else if extractor_type = Some ''datetime'' then extract_datetime lib txt ex
         else if extractor_type = Some ''list'' then extract_list lib txt text_lower ex
         else if extractor_type = Some ''enum'' then Inr (extract_enum text_lower ex)
         else Inr VNone)"

section \<open>Confidence and source text\<close>

text \<open>Python's truth value of a value.\<close>

fun truthy :: "val \<Rightarrow> bool" where
  "truthy VNone = False"
| "truthy (VBool b) = b"
| "truthy (VInt i) = (i \<noteq> 0)"
| "truthy (VFloat r) = (r \<noteq> 0)"
| "truthy (VStr s) = (s \<noteq> [])"
| "truthy (VList xs) = (xs \<noteq> [])"
| "truthy (VDict kvs) = (kvs \<noteq> [])"
| "truthy (VResult v c s t) = True"

text \<open>\<^verbatim>\<open>re.match(r'\d{4}-\d{2}-\d{2}', value)\<close>: the shape of the first ten characters.\<close>

definition iso_prefix :: "string \<Rightarrow> bool" where
  "iso_prefix s =
     (10 \<le> length s \<and> list_all is_digit (take 4 s) \<and> s ! 4 = CHR ''-'' \<and>
      list_all is_digit (take 2 (drop 5 s)) \<and> s ! 7 = CHR ''-'' \<and>
      list_all is_digit (take 2 (drop 8 s)))"

text \<open>
  \<^verbatim>\<open>value in choices\<close> hashes the value: a list, a dictionary or a dataclass object
  raises \<open>TypeError\<close>, and only a string can be a key of the choices.
\<close>

definition in_choices :: "val \<Rightarrow> (string \<times> kw_spec) list \<Rightarrow> py_error + bool" where
  "in_choices v choices =
     (case v of
        VList xs \<Rightarrow> Inl TypeError
      | VDict kvs \<Rightarrow> Inl TypeError
      | VResult w c src t \<Rightarrow> Inl TypeError
      | VStr s \<Rightarrow> Inr (s \<in> set (map fst choices))
      | other \<Rightarrow> Inr False)"

text \<open>\<^verbatim>\<open>_calculate_confidence\<close>.\<close>

definition calculate_confidence :: "string \<Rightarrow> extractor \<Rightarrow> val \<Rightarrow> py_error + rat" where
  "calculate_confidence text_lower ex v =
     (let extractor_type = ex_type ex
      in if truthy_str (ex_pattern ex) then Inr (95 / 100)
         else if extractor_type = Some ''enum'' then
           (case in_choices v (ex_choices ex) of
              Inl e \<Rightarrow> Inl e
            | Inr hit \<Rightarrow> Inr (if hit then 90 / 100 else 70 / 100))
         else if extractor_type = Some ''boolean'' then
           (let matches = length (filter (\<lambda>kw. py_in (lower kw) text_lower) (ex_keywords ex))
            in Inr (if 3 \<le> matches then 95 / 100
                    else if 2 \<le> matches then 85 / 100
                    else if matches = 1 then 75 / 100
                    else if truthy v then 50 / 100 else 60 / 100))
         else if extractor_type = Some ''list'' \<and> (case v of VList xs \<Rightarrow> True | other \<Rightarrow> False) then
           (case v of
              VList xs \<Rightarrow>
                Inr (if 3 \<le> length xs then 90 / 100
                     else if 1 \<le> length xs then 80 / 100
                     else 50 / 100)
            | other \<Rightarrow> Inr (50 / 100))
         else if extractor_type = Some ''date'' \<or> extractor_type = Some ''datetime'' then
           (case v of
              VStr s \<Rightarrow> Inr (if iso_prefix s then 90 / 100 else 75 / 100)
            | other \<Rightarrow> Inr (75 / 100))
         else if extractor_type \<in> {Some ''int'', Some ''float'', Some ''money'', Some ''percentage''}
           then Inr (90 / 100)
         else Inr (70 / 100))"

text \<open>The result of \<^verbatim>\<open>_find_source_text\<close> from the enum choices, if any.\<close>

fun enum_source :: "string \<Rightarrow> val \<Rightarrow> (string \<times> kw_spec) list \<Rightarrow> string option" where
  "enum_source text_lower v [] = None"
| "enum_source text_lower v ((choice_value, kws) # rest) =
     (if VStr choice_value = v then
        (case filter (\<lambda>kw. py_in (lower kw) text_lower) (kw_list kws) of
           kw # _ \<Rightarrow> Some kw
         | [] \<Rightarrow> enum_source text_lower v rest)
      else enum_source text_lower v rest)"

text \<open>\<^verbatim>\<open>_find_source_text\<close>.\<close>

definition find_source_text ::
    "('r, 'dt) pylib \<Rightarrow> string \<Rightarrow> string \<Rightarrow> extractor \<Rightarrow> val \<Rightarrow> string" where
  "find_source_text lib txt text_lower ex v =
     (let by_pattern =
            (if truthy_str (ex_pattern ex) then
               (case get_compiled_pattern lib (the (ex_pattern ex)) of
                  None \<Rightarrow> None
                | Some compiled \<Rightarrow>
                    (case re_search lib compiled txt of
                       None \<Rightarrow> None
                     | Some m \<Rightarrow> Some (m_group0 m)))
             else None)
      in case by_pattern of
           Some src \<Rightarrow> src
         | None \<Rightarrow>
             (case filter (\<lambda>kw. py_in (lower kw) text_lower) (ex_keywords ex) of
                kw # _ \<Rightarrow> kw
              | [] \<Rightarrow>
                  (case (if ex_type ex = Some ''enum''
                         then enum_source text_lower v (ex_choices ex) else None) of
                     Some kw \<Rightarrow> kw
                   | None \<Rightarrow> lib_str lib v)))"

text \<open>\<^verbatim>\<open>_extract_field_with_confidence\<close>; \<open>Inr VNone\<close> is Python's \<open>None\<close>.\<close>

definition extract_field_with_confidence ::
    "('r, 'dt) pylib \<Rightarrow> string \<Rightarrow> string \<Rightarrow> extractor \<Rightarrow> py_error + val" where
  "extract_field_with_confidence lib txt text_lower ex =
     (case extract_field lib txt text_lower ex of
        Inl e \<Rightarrow> Inl e
      | Inr v \<Rightarrow>
          if v = VNone then Inr VNone
          else
            (case calculate_confidence text_lower ex v of
               Inl e \<Rightarrow> Inl e
             | Inr confidence \<Rightarrow>
                 Inr (VResult v confidence (find_source_text lib txt text_lower ex v)
                        (ex_type ex))))"

section \<open>Python arithmetic and comparison\<close>

text \<open>The number a value stands for in arithmetic: \<open>bool\<close> is a subclass of \<open>int\<close>.\<close>

definition int_of :: "val \<Rightarrow> int option" where
  "int_of v =
     (case v of VBool b \<Rightarrow> Some (if b then 1 else 0) | VInt i \<Rightarrow> Some i | other \<Rightarrow> None)"

definition num_of :: "val \<Rightarrow> rat option" where
  "num_of v =
     (case v of
        VBool b \<Rightarrow> Some (if b then 1 else 0)
      | VInt i \<Rightarrow> Some (of_int i)
      | VFloat r \<Rightarrow> Some r
      | other \<Rightarrow> None)"

definition num_eq :: "val \<Rightarrow> val \<Rightarrow> bool" where
  "num_eq a b = (case (num_of a, num_of b) of (Some x, Some y) \<Rightarrow> x = y | other \<Rightarrow> False)"

text \<open>
  \<^verbatim>\<open>a == b\<close>: numbers by their value, lists element by element, dictionaries key by
  key, dataclass objects field by field.
\<close>

fun py_eq :: "val \<Rightarrow> val \<Rightarrow> bool"
  and py_eq_list :: "val list \<Rightarrow> val list \<Rightarrow> bool"
  and dict_sub :: "(string \<times> val) list \<Rightarrow> (string \<times> val) list \<Rightarrow> bool"
  and entry_eq :: "string \<Rightarrow> val \<Rightarrow> (string \<times> val) list \<Rightarrow> bool"
where
  "py_eq a b =
     (case a of
        VList xs \<Rightarrow> (case b of VList ys \<Rightarrow> py_eq_list xs ys | other \<Rightarrow> False)
      | VDict d \<Rightarrow> (case b of VDict d' \<Rightarrow> length d = length d' \<and> dict_sub d d' | other \<Rightarrow> False)
      | VResult v c s t \<Rightarrow>
          (case b of
             VResult v' c' s' t' \<Rightarrow> py_eq v v' \<and> c = c' \<and> s = s' \<and> t = t'
           | other \<Rightarrow> False)
      | VStr s \<Rightarrow> (case b of VStr s' \<Rightarrow> s = s' | other \<Rightarrow> False)
      | VNone \<Rightarrow> (b = VNone)
      | other \<Rightarrow> num_eq a b)"
| "py_eq_list [] ys = (ys = [])"
| "py_eq_list (x # xs) ys =
     (case ys of [] \<Rightarrow> False | y # ys' \<Rightarrow> py_eq x y \<and> py_eq_list xs ys')"
| "dict_sub [] d' = True"
| "dict_sub ((k, v) # rest) d' = (entry_eq k v d' \<and> dict_sub rest d')"
| "entry_eq k v [] = False"
| "entry_eq k v ((k', w) # rest) = (if k = k' then py_eq v w else entry_eq k v rest)"

datatype cmp_op = Gt | Ge | Lt | Le

definition cmp_ord :: "cmp_op \<Rightarrow> 'a::linorder \<Rightarrow> 'a \<Rightarrow> bool" where
  "cmp_ord opr x y = (case opr of Gt \<Rightarrow> y < x | Ge \<Rightarrow> y \<le> x | Lt \<Rightarrow> x < y | Le \<Rightarrow> x \<le> y)"

definition num_compare :: "cmp_op \<Rightarrow> val \<Rightarrow> val \<Rightarrow> py_error + bool" where
  "num_compare opr a b =
     (case (num_of a, num_of b) of
        (Some x, Some y) \<Rightarrow> Inr (cmp_ord opr x y)
      | other \<Rightarrow> Inl TypeError)"

text \<open>
  \<^verbatim>\<open>a > b\<close>, \<^verbatim>\<open>a >= b\<close>, \<^verbatim>\<open>a < b\<close> and \<^verbatim>\<open>a <= b\<close>: numbers with numbers, strings with
  strings, lists with lists (by the first pair of elements that are not equal, else by
  length); every other pair raises \<open>TypeError\<close>.
\<close>

fun py_compare :: "cmp_op \<Rightarrow> val \<Rightarrow> val \<Rightarrow> py_error + bool"
  and py_compare_list :: "cmp_op \<Rightarrow> val list \<Rightarrow> val list \<Rightarrow> py_error + bool"
where
  "py_compare opr a b =
     (case a of
        VList xs \<Rightarrow> (case b of VList ys \<Rightarrow> py_compare_list opr xs ys | other \<Rightarrow> Inl TypeError)
      | VStr s \<Rightarrow> (case b of VStr s' \<Rightarrow> Inr (cmp_ord opr s s') | other \<Rightarrow> Inl TypeError)
      | other \<Rightarrow> num_compare opr a b)"
| "py_compare_list opr [] ys = Inr (cmp_ord opr 0 (length ys))"
| "py_compare_list opr (x # xs) ys =
     (case ys of
        [] \<Rightarrow> Inr (cmp_ord opr (Suc (length xs)) 0)
      | y # ys' \<Rightarrow> if py_eq x y then py_compare_list opr xs ys' else py_compare opr x y)"

text \<open>\<^verbatim>\<open>a + b\<close> where \<open>a\<close> is a number, as in \<^verbatim>\<open>sum(values)\<close>, which starts from \<open>0\<close>.\<close>

definition py_add :: "val \<Rightarrow> val \<Rightarrow> py_error + val" where
  "py_add a b =
     (case (int_of a, int_of b) of
        (Some i, Some j) \<Rightarrow> Inr (VInt (i + j))
      | other \<Rightarrow>
          (case (num_of a, num_of b) of
             (Some x, Some y) \<Rightarrow> Inr (VFloat (x + y))
           | other \<Rightarrow> Inl TypeError))"

text \<open>\<^verbatim>\<open>s * n\<close> for a sequence and an integer.\<close>

definition repeat :: "'a list \<Rightarrow> int \<Rightarrow> 'a list" where
  "repeat xs n = concat (replicate (nat n) xs)"

text \<open>\<^verbatim>\<open>a * b\<close>: numbers, and a string or a list repeated by an integer.\<close>

definition py_mul :: "val \<Rightarrow> val \<Rightarrow> py_error + val" where
  "py_mul a b =
     (case (int_of a, int_of b) of
        (Some i, Some j) \<Rightarrow> Inr (VInt (i * j))
      | (Some i, None) \<Rightarrow>
          (case b of
             VFloat y \<Rightarrow> Inr (VFloat (of_int i * y))
           | VStr s \<Rightarrow> Inr (VStr (repeat s i))
           | VList xs \<Rightarrow> Inr (VList (repeat xs i))
           | other \<Rightarrow> Inl TypeError)
      | (None, Some j) \<Rightarrow>
          (case a of
             VFloat x \<Rightarrow> Inr (VFloat (x * of_int j))
           | VStr s \<Rightarrow> Inr (VStr (repeat s j))
           | VList xs \<Rightarrow> Inr (VList (repeat xs j))
           | other \<Rightarrow> Inl TypeError)
      | (None, None) \<Rightarrow>
          (case (a, b) of
             (VFloat x, VFloat y) \<Rightarrow> Inr (VFloat (x * y))
           | other \<Rightarrow> Inl TypeError))"

text \<open>\<^verbatim>\<open>a / b\<close>: true division of numbers.\<close>

definition py_truediv :: "val \<Rightarrow> val \<Rightarrow> py_error + val" where
  "py_truediv a b =
     (case (num_of a, num_of b) of
        (Some x, Some y) \<Rightarrow> if y = 0 then Inl ZeroDivisionError else Inr (VFloat (x / y))
      | other \<Rightarrow> Inl TypeError)"

text \<open>\<^verbatim>\<open>len(x)\<close>, \<^verbatim>\<open>x[i]\<close> for an index below \<^verbatim>\<open>len(x)\<close>, and \<^verbatim>\<open>for a in x\<close>.\<close>

definition py_len :: "val \<Rightarrow> py_error + nat" where
  "py_len x =
     (case x of
        VList xs \<Rightarrow> Inr (length xs)
      | VStr s \<Rightarrow> Inr (length s)
      | VDict kvs \<Rightarrow> Inr (length kvs)
      | other \<Rightarrow> Inl TypeError)"

definition py_getitem :: "val \<Rightarrow> nat \<Rightarrow> py_error + val" where
  "py_getitem x i =
     (case x of
        VList xs \<Rightarrow> if i < length xs then Inr (xs ! i) else Inl IndexError
      | VStr s \<Rightarrow> if i < length s then Inr (VStr [s ! i]) else Inl IndexError
      | VDict kvs \<Rightarrow> Inl KeyError
      | other \<Rightarrow> Inl TypeError)"

definition py_iter :: "val \<Rightarrow> py_error + val list" where
  "py_iter x =
     (case x of
        VList xs \<Rightarrow> Inr xs
      | VStr s \<Rightarrow> Inr (map (\<lambda>c. VStr [c]) s)
      | VDict kvs \<Rightarrow> Inr (map (\<lambda>kv. VStr (fst kv)) kvs)
      | other \<Rightarrow> Inl TypeError)"

section \<open>The formula interpreter\<close>

text \<open>
  The closure \<^verbatim>\<open>get_value\<close> of \<^verbatim>\<open>_calculate_computed_fields\<close>:
  \<^verbatim>\<open>extracted.get(field, default)\<close>, unwrapped in confidence mode. A list or a
  dictionary cannot be hashed, so it raises \<open>TypeError\<close>; any other value that is not
  a string is no key of the facts.
\<close>

definition get_value :: "(string \<rightharpoonup> val) \<Rightarrow> bool \<Rightarrow> val \<Rightarrow> val \<Rightarrow> py_error + val" where
  "get_value extracted include_confidence field dflt =
     (case field of
        VList xs \<Rightarrow> Inl TypeError
      | VDict kvs \<Rightarrow> Inl TypeError
      | VResult v c s t \<Rightarrow> Inl TypeError
      | VStr k \<Rightarrow>
          (case extracted k of
             None \<Rightarrow> Inr dflt
           | Some (VResult v c s t) \<Rightarrow>
               Inr (if include_confidence then v else VResult v c s t)
           | Some v \<Rightarrow> Inr v)
      | other \<Rightarrow> Inr dflt)"

text \<open>\<^verbatim>\<open>args if isinstance(args, list) else [args]\<close>.\<close>

definition as_list :: "val \<Rightarrow> val list" where
  "as_list args = (case args of VList xs \<Rightarrow> xs | other \<Rightarrow> [args])"

text \<open>
  How an argument that is not a formula is read: with \<^verbatim>\<open>get_value(f, False)\<close> by
  \<^verbatim>\<open>any\<close> and \<^verbatim>\<open>all\<close>; as a field reference when it is a string and as a literal
  otherwise by the other operators.
\<close>

datatype arg_mode = FieldOrFalse | RefOrLiteral

definition eval_leaf :: "(val \<Rightarrow> val \<Rightarrow> py_error + val) \<Rightarrow> arg_mode \<Rightarrow> val \<Rightarrow> py_error + val" where
  "eval_leaf gv mode a =
     (case mode of
        FieldOrFalse \<Rightarrow> gv a (VBool False)
      | RefOrLiteral \<Rightarrow> (case a of VStr s \<Rightarrow> gv a VNone | other \<Rightarrow> Inr a))"

fun is_dict :: "val \<Rightarrow> bool" where
  "is_dict (VDict kvs) = True"
| "is_dict other = False"

text \<open>The count of the fields for which a test holds; the test may raise.\<close>

fun count_where :: "(val \<Rightarrow> py_error + bool) \<Rightarrow> val list \<Rightarrow> py_error + int" where
  "count_where t [] = Inr 0"
| "count_where t (f # fs) =
     (case t f of
        Inl e \<Rightarrow> Inl e
      | Inr b \<Rightarrow>
          (case count_where t fs of
             Inl e \<Rightarrow> Inl e
           | Inr n \<Rightarrow> Inr (if b then n + 1 else n)))"

text \<open>The loop of the operator \<^verbatim>\<open>sum\<close>: a value that is no number is skipped.\<close>

fun sum_fields :: "(val \<Rightarrow> val \<Rightarrow> py_error + val) \<Rightarrow> val \<Rightarrow> val list \<Rightarrow> py_error + val" where
  "sum_fields gv acc [] = Inr acc"
| "sum_fields gv acc (f # fs) =
     (case (case f of VStr s \<Rightarrow> gv f (VInt 0) | other \<Rightarrow> Inr f) of
        Inl e \<Rightarrow> Inl e
      | Inr v \<Rightarrow>
          if num_of v \<noteq> None then
            (case py_add acc v of Inl e \<Rightarrow> Inl e | Inr acc' \<Rightarrow> sum_fields gv acc' fs)
          else sum_fields gv acc fs)"

text \<open>\<^verbatim>\<open>sum(values)\<close> and the product loop of \<^verbatim>\<open>mul\<close>.\<close>

fun fold_op :: "(val \<Rightarrow> val \<Rightarrow> py_error + val) \<Rightarrow> val \<Rightarrow> val list \<Rightarrow> py_error + val" where
  "fold_op f acc [] = Inr acc"
| "fold_op f acc (v # vs) =
     (case f acc v of Inl e \<Rightarrow> Inl e | Inr acc' \<Rightarrow> fold_op f acc' vs)"

text \<open>The comparison operators: neither argument is evaluated as a formula.\<close>

definition compare_op ::
    "(val \<Rightarrow> val \<Rightarrow> py_error + val) \<Rightarrow> cmp_op \<Rightarrow> val \<Rightarrow> py_error + val" where
  "compare_op gv opr args =
     (case py_len args of
        Inl e \<Rightarrow> Inl e
      | Inr n \<Rightarrow>
          if n = 2 then
            (case py_getitem args 0 of
               Inl e \<Rightarrow> Inl e
             | Inr a0 \<Rightarrow>
                 (case eval_leaf gv RefOrLiteral a0 of
                    Inl e \<Rightarrow> Inl e
                  | Inr left \<Rightarrow>
                      (case py_getitem args 1 of
                         Inl e \<Rightarrow> Inl e
                       | Inr a1 \<Rightarrow>
                           (case eval_leaf gv RefOrLiteral a1 of
                              Inl e \<Rightarrow> Inl e
                            | Inr right \<Rightarrow>
                                if left \<noteq> VNone \<and> right \<noteq> VNone then
                                  (case py_compare opr left right of
                                     Inl e \<Rightarrow> Inl e
                                   | Inr b \<Rightarrow> Inr (VBool b))
                                else Inr VNone))))
          else Inr VNone)"

text \<open>The result of \<^verbatim>\<open>add\<close> and \<^verbatim>\<open>mul\<close> from the evaluated arguments.\<close>

definition arith_result :: "bool \<Rightarrow> val list \<Rightarrow> py_error + val" where
  "arith_result is_add vals =
     (if list_all (\<lambda>v. v \<noteq> VNone) vals then
        (if is_add then fold_op py_add (VInt 0) vals else fold_op py_mul (VInt 1) vals)
      else Inr VNone)"

text \<open>The branch of \<^verbatim>\<open>if\<close> that the condition selects: it is not evaluated.\<close>

definition if_branch ::
    "(val \<Rightarrow> val \<Rightarrow> py_error + val) \<Rightarrow> val \<Rightarrow> val \<Rightarrow> val \<Rightarrow> py_error + val" where
  "if_branch gv cond_result then_val else_val =
     (if truthy cond_result then eval_leaf gv RefOrLiteral then_val
      else eval_leaf gv RefOrLiteral else_val)"

text \<open>
  The operators \<^verbatim>\<open>add\<close>, \<^verbatim>\<open>mul\<close> and \<^verbatim>\<open>if\<close> on arguments that are not a list:
  \<^verbatim>\<open>len\<close> raises on a value without a length, a string is read character by
  character, a dictionary key by key, and \<^verbatim>\<open>args[0]\<close> on a dictionary raises
  \<open>KeyError\<close>. No argument is a formula here.
\<close>

fun eval_leaves ::
    "(val \<Rightarrow> val \<Rightarrow> py_error + val) \<Rightarrow> arg_mode \<Rightarrow> val list \<Rightarrow> py_error + val list" where
  "eval_leaves gv mode [] = Inr []"
| "eval_leaves gv mode (a # rest) =
     (case eval_leaf gv mode a of
        Inl e \<Rightarrow> Inl e
      | Inr v \<Rightarrow>
          (case eval_leaves gv mode rest of Inl e \<Rightarrow> Inl e | Inr vs \<Rightarrow> Inr (v # vs)))"

definition arith_nonlist ::
    "(val \<Rightarrow> val \<Rightarrow> py_error + val) \<Rightarrow> bool \<Rightarrow> val \<Rightarrow> py_error + val" where
  "arith_nonlist gv is_add args =
     (case py_len args of
        Inl e \<Rightarrow> Inl e
      | Inr n \<Rightarrow>
          if 2 \<le> n then
            (case py_iter args of
               Inl e \<Rightarrow> Inl e
             | Inr items \<Rightarrow>
                 (case eval_leaves gv RefOrLiteral items of
                    Inl e \<Rightarrow> Inl e
                  | Inr vals \<Rightarrow> arith_result is_add vals))
          else Inr VNone)"

definition if_nonlist :: "(val \<Rightarrow> val \<Rightarrow> py_error + val) \<Rightarrow> val \<Rightarrow> py_error + val" where
  "if_nonlist gv args =
     (case py_len args of
        Inl e \<Rightarrow> Inl e
      | Inr n \<Rightarrow>
          if n = 3 then
            (case py_getitem args 0 of
               Inl e \<Rightarrow> Inl e
             | Inr condition \<Rightarrow>
                 (case eval_leaf gv RefOrLiteral condition of
                    Inl e \<Rightarrow> Inl e
                  | Inr cond_result \<Rightarrow>
                      (case py_getitem args (if truthy cond_result then 1 else 2) of
                         Inl e \<Rightarrow> Inl e
                       | Inr branch \<Rightarrow> eval_leaf gv RefOrLiteral branch)))
          else Inr VNone)"

lemma as_list_size: "size_list size (as_list y) \<le> Suc (size y)"
  by (cases y) (simp_all add: as_list_def)

text \<open>
  \<^verbatim>\<open>_evaluate_formula\<close>, with the closure \<^verbatim>\<open>get_value\<close> as its parameter \<open>gv\<close>
  (the parameter \<^verbatim>\<open>extracted\<close> is only passed on). \<open>Inr VNone\<close> is the result
  \<open>None\<close>; \<open>Inl e\<close> is an exception that leaves the function. \<open>eval_args\<close> builds the
  list of evaluated arguments: a dictionary is evaluated as a formula.
\<close>

function evaluate_formula :: "(val \<Rightarrow> val \<Rightarrow> py_error + val) \<Rightarrow> val \<Rightarrow> py_error + val"
  and eval_args ::
    "(val \<Rightarrow> val \<Rightarrow> py_error + val) \<Rightarrow> arg_mode \<Rightarrow> val list \<Rightarrow> py_error + val list"
where
  "evaluate_formula gv formula =
     (case formula of
        VDict [(opr, args)] \<Rightarrow>
          if opr = ''count_true'' then
            (case count_where
                    (\<lambda>f. case gv f (VBool False) of Inl e \<Rightarrow> Inl e | Inr v \<Rightarrow> Inr (v = VBool True))
                    (as_list args) of
               Inl e \<Rightarrow> Inl e | Inr n \<Rightarrow> Inr (VInt n))
          else if opr = ''count_fields'' then
            (case count_where
                    (\<lambda>f. case gv f VNone of Inl e \<Rightarrow> Inl e | Inr v \<Rightarrow> Inr (v \<noteq> VNone))
                    (as_list args) of
               Inl e \<Rightarrow> Inl e | Inr n \<Rightarrow> Inr (VInt n))
          else if opr = ''sum'' then sum_fields gv (VInt 0) (as_list args)
          else if opr = ''any'' then
            (case eval_args gv FieldOrFalse (as_list args) of
               Inl e \<Rightarrow> Inl e
             | Inr vals \<Rightarrow> Inr (VBool (list_ex truthy (filter (\<lambda>v. v \<noteq> VNone) vals))))
          else if opr = ''all'' then
            (case eval_args gv FieldOrFalse (as_list args) of
               Inl e \<Rightarrow> Inl e
             | Inr vals \<Rightarrow> Inr (VBool (list_all truthy (filter (\<lambda>v. v \<noteq> VNone) vals))))
          else if opr = ''gt'' \<or> opr = ''>'' then compare_op gv Gt args
          else if opr = ''gte'' \<or> opr = ''>='' then compare_op gv Ge args
          else if opr = ''lt'' \<or> opr = ''<'' then compare_op gv Lt args
          else if opr = ''lte'' \<or> opr = ''<='' then compare_op gv Le args
          else if opr = ''add'' \<or> opr = ''+'' \<or> opr = ''mul'' \<or> opr = ''*'' then
            (case args of
               VList xs \<Rightarrow>
                 if 2 \<le> length xs then
                   (case eval_args gv RefOrLiteral xs of
                      Inl e \<Rightarrow> Inl e
                    | Inr vals \<Rightarrow> arith_result (opr = ''add'' \<or> opr = ''+'') vals)
                 else Inr VNone
             | other \<Rightarrow> arith_nonlist gv (opr = ''add'' \<or> opr = ''+'') args)
          else if opr = ''if'' then
            (case args of
               VList [condition, then_val, else_val] \<Rightarrow>
                 (case (if is_dict condition then evaluate_formula gv condition
                        else eval_leaf gv RefOrLiteral condition) of
                    Inl e \<Rightarrow> Inl e
                  | Inr cond_result \<Rightarrow> if_branch gv cond_result then_val else_val)
             | VList other_length \<Rightarrow> Inr VNone
             | other \<Rightarrow> if_nonlist gv args)
          else if opr = ''not'' then
            (case (if is_dict args then evaluate_formula gv args
                   else eval_leaf gv RefOrLiteral args) of
               Inl e \<Rightarrow> Inl e
             | Inr v \<Rightarrow> Inr (if v \<noteq> VNone then VBool (\<not> truthy v) else VNone))
          else if opr = ''and'' then
            (case eval_args gv RefOrLiteral (as_list args) of
               Inl e \<Rightarrow> Inl e
             | Inr results \<Rightarrow>
                 Inr (if results \<noteq> []
                      then VBool (list_all truthy (filter (\<lambda>r. r \<noteq> VNone) results))
                      else VNone))
          else if opr = ''or'' then
            (case eval_args gv RefOrLiteral (as_list args) of
               Inl e \<Rightarrow> Inl e
             | Inr results \<Rightarrow>
                 Inr (if results \<noteq> []
                      then VBool (list_ex truthy (filter (\<lambda>r. r \<noteq> VNone) results))
                      else VNone))
          else Inr VNone
      | other \<Rightarrow> Inr VNone)"
| "eval_args gv mode [] = Inr []"
| "eval_args gv mode (a # rest) =
     (case (if is_dict a then evaluate_formula gv a else eval_leaf gv mode a) of
        Inl e \<Rightarrow> Inl e
      | Inr v \<Rightarrow>
          (case eval_args gv mode rest of Inl e \<Rightarrow> Inl e | Inr vs \<Rightarrow> Inr (v # vs)))"
  by pat_completeness auto
termination
proof (relation "measure (\<lambda>x. case x of Inl (gv, f) \<Rightarrow> 2 * size f
                                       | Inr (gv, m, xs) \<Rightarrow> 2 * size_list size xs + 1)",
       goal_cases)
  case 1
  show ?case by simp
next
  case (2 gv formula x7 x21 x22 x y)
  from 2(1-4) as_list_size [of y] show ?case by auto
next
  case (3 gv formula x7 x21 x22 x y)
  from 3(1-4) as_list_size [of y] show ?case by auto
next
  case (4 gv formula x7 x21 x22 x y x6)
  from 4(1-4,15) show ?case by auto
next
  case (5 gv formula x7 x21 x22 x y x6 x21a x22a x21b x22b x21c x22c)
  from 5(1-4,16-20) show ?case by auto
next
  case (6 gv formula x7 x21 x22 x y)
  from 6(1-4) show ?case by auto
next
  case (7 gv formula x7 x21 x22 x y)
  from 7(1-4) as_list_size [of y] show ?case by auto
next
  case (8 gv formula x7 x21 x22 x y)
  from 8(1-4) as_list_size [of y] show ?case by auto
next
  case (9 gv mode a rest)
  show ?case by simp
next
  case (10 gv mode a rest b)
  show ?case by simp
qed

declare evaluate_formula.simps [simp del]

text \<open>\<^verbatim>\<open>_extract_formula_dependencies\<close>: the set of names, as a list.\<close>

fun formula_deps :: "val \<Rightarrow> string list"
  and deps_of_items :: "val list \<Rightarrow> string list"
  and deps_of_entries :: "(string \<times> val) list \<Rightarrow> string list"
where
  "formula_deps formula =
     (case formula of
        VStr s \<Rightarrow> [s]
      | VDict kvs \<Rightarrow> deps_of_entries kvs
      | other \<Rightarrow> [])"
| "deps_of_items [] = []"
| "deps_of_items (item # items) = formula_deps item @ deps_of_items items"
| "deps_of_entries [] = []"
| "deps_of_entries ((k, v) # rest) =
     (case v of VList items \<Rightarrow> deps_of_items items | other \<Rightarrow> formula_deps v)
     @ deps_of_entries rest"

section \<open>Derived and computed fields\<close>

text \<open>
  The closures \<^verbatim>\<open>set_computed\<close> and \<^verbatim>\<open>set_derived\<close>: in confidence mode the fact
  is an \<^verbatim>\<open>ExtractionResult\<close> of confidence \<open>1.0\<close> and source \<^verbatim>\<open>'computed'\<close>.
\<close>

definition set_computed ::
    "bool \<Rightarrow> (string \<rightharpoonup> val) \<Rightarrow> string \<Rightarrow> val \<Rightarrow> (string \<rightharpoonup> val)" where
  "set_computed include_confidence extracted field v =
     (if include_confidence
      then extracted(field \<mapsto> VResult v 1 ''computed'' (Some ''computed''))
      else extracted(field \<mapsto> v))"

text \<open>
  The \<open>default\<close> of a computed extractor, written when there is one; used where a
  field has no formula, its formula gives \<open>None\<close>, or its evaluation raises.
\<close>

definition set_default ::
    "bool \<Rightarrow> (string \<rightharpoonup> val) \<Rightarrow> string \<Rightarrow> val \<Rightarrow> (string \<rightharpoonup> val)" where
  "set_default include_confidence extracted field dflt =
     (if dflt \<noteq> VNone then set_computed include_confidence extracted field dflt
      else extracted)"

text \<open>
  One pass of the \<^verbatim>\<open>for\<close> loop of \<^verbatim>\<open>_calculate_computed_fields\<close> over
  \<^verbatim>\<open>remaining.items()\<close>: the facts after the pass, and \<^verbatim>\<open>computed_this_pass\<close>.
  A field with a dependency that is a computed name and no key of the facts is skipped.
\<close>

fun compute_pass ::
    "bool \<Rightarrow> string list \<Rightarrow> (string \<times> extractor) list \<Rightarrow> (string \<rightharpoonup> val)
     \<Rightarrow> (string \<rightharpoonup> val) \<times> string list" where
  "compute_pass include_confidence computed_names [] extracted = (extracted, [])"
| "compute_pass include_confidence computed_names ((field_name, ex) # rest) extracted =
     (let formula = ex_formula ex; dflt = ex_default ex
      in if \<not> truthy formula then
           (let (extracted', computed_this_pass) =
                  compute_pass include_confidence computed_names rest
                    (set_default include_confidence extracted field_name dflt)
            in (extracted', field_name # computed_this_pass))
         else if list_ex (\<lambda>d. d \<in> set computed_names \<and> extracted d = None) (formula_deps formula)
         then compute_pass include_confidence computed_names rest extracted
         else
           (let extracted1 =
                  (case evaluate_formula (get_value extracted include_confidence) formula of
                     Inr result \<Rightarrow>
                       if result \<noteq> VNone
                       then set_computed include_confidence extracted field_name result
                       else set_default include_confidence extracted field_name dflt
                   | Inl e \<Rightarrow> set_default include_confidence extracted field_name dflt);
                (extracted', computed_this_pass) =
                  compute_pass include_confidence computed_names rest extracted1
            in (extracted', field_name # computed_this_pass)))"

text \<open>\<^verbatim>\<open>remaining.pop(name, None)\<close> for every name computed in the pass.\<close>

definition pop_all :: "string list \<Rightarrow> (string \<times> extractor) list \<Rightarrow> (string \<times> extractor) list" where
  "pop_all names remaining = filter (\<lambda>kv. fst kv \<notin> set names) remaining"

text \<open>
  The \<^verbatim>\<open>while\<close> loop of \<^verbatim>\<open>_calculate_computed_fields\<close>. The result holds the facts,
  the number of passes made and the fields still in \<^verbatim>\<open>remaining\<close> when the loop ends.
\<close>

function settle ::
    "bool \<Rightarrow> string list \<Rightarrow> nat \<Rightarrow> nat \<Rightarrow> (string \<times> extractor) list \<Rightarrow> (string \<rightharpoonup> val)
     \<Rightarrow> (string \<rightharpoonup> val) \<times> nat \<times> (string \<times> extractor) list" where
  "settle include_confidence computed_names max_iterations iteration remaining extracted =
     (if remaining \<noteq> [] \<and> iteration < max_iterations then
        (let (extracted', computed_this_pass) =
               compute_pass include_confidence computed_names remaining extracted
         in settle include_confidence computed_names max_iterations (iteration + 1)
              (pop_all computed_this_pass remaining) extracted')
      else (extracted, iteration, remaining))"
  by pat_completeness auto
termination
  by (relation "measure (\<lambda>(ic, names, max_iterations, iteration, remaining, extracted).
                            max_iterations - iteration)") auto

declare settle.simps [simp del]

text \<open>
  \<^verbatim>\<open>_calculate_computed_fields\<close>; the computed extractors are the ordered dictionary
  \<^verbatim>\<open>computed_extractors\<close>, each name once.
\<close>

definition calculate_computed_fields ::
    "(string \<rightharpoonup> val) \<Rightarrow> (string \<times> extractor) list \<Rightarrow> bool \<Rightarrow> (string \<rightharpoonup> val)" where
  "calculate_computed_fields extracted computed_extractors include_confidence =
     fst (settle include_confidence (map fst computed_extractors)
            (length computed_extractors + 1) 0 computed_extractors extracted)"

text \<open>
  \<^verbatim>\<open>_calculate_derived_fields\<close>. The comparison and the division raise
  \<open>TypeError\<close> on facts that are not numbers; nothing here catches it.
\<close>

definition calculate_derived_fields ::
    "(string \<rightharpoonup> val) \<Rightarrow> string \<Rightarrow> bool \<Rightarrow> py_error + (string \<rightharpoonup> val)" where
  "calculate_derived_fields extracted text_lower include_confidence =
     (let gv = get_value extracted include_confidence;
          word_count = VInt (int (length (split_ws [] text_lower)))
      in case gv (VStr ''fees'') VNone of
           Inl e \<Rightarrow> Inl e
         | Inr fees \<Rightarrow>
             (case gv (VStr ''loan_amount'') VNone of
                Inl e \<Rightarrow> Inl e
              | Inr loan_amount \<Rightarrow>
                  if fees \<noteq> VNone \<and> loan_amount \<noteq> VNone then
                    (case py_compare Gt loan_amount (VInt 0) of
                       Inl e \<Rightarrow> Inl e
                     | Inr positive \<Rightarrow>
                         if positive then
                           (case py_truediv fees loan_amount of
                              Inl e \<Rightarrow> Inl e
                            | Inr q \<Rightarrow>
                                (case py_mul q (VInt 100) of
                                   Inl e \<Rightarrow> Inl e
                                 | Inr pct \<Rightarrow>
                                     Inr (set_computed include_confidence
                                            (set_computed include_confidence extracted
                                               ''fee_percentage'' pct)
                                            ''word_count'' word_count)))
                         else Inr (set_computed include_confidence extracted
                                     ''word_count'' word_count))
                  else Inr (set_computed include_confidence extracted
                              ''word_count'' word_count)))"

section \<open>The parser\<close>

text \<open>\<^verbatim>\<open>d[k] = v\<close> on a dictionary kept as a list of items.\<close>

fun dict_set :: "(string \<times> val) list \<Rightarrow> string \<Rightarrow> val \<Rightarrow> (string \<times> val) list" where
  "dict_set [] k v = [(k, v)]"
| "dict_set ((k', w) # rest) k v =
     (if k' = k then (k, v) # rest else (k', w) # dict_set rest k v)"

definition is_computed :: "extractor \<Rightarrow> bool" where
  "is_computed ex = (ex_type ex = Some ''computed'' \<or> ex_computed ex)"

text \<open>
  The first loop of \<^verbatim>\<open>parse\<close>: the facts and \<^verbatim>\<open>confidence_scores\<close> after the
  extractors that are not computed, in the order of the ontology.
\<close>

fun extract_all ::
    "('r, 'dt) pylib \<Rightarrow> string \<Rightarrow> string \<Rightarrow> bool \<Rightarrow> (string \<times> extractor) list
     \<Rightarrow> (string \<rightharpoonup> val) \<Rightarrow> (string \<times> val) list
     \<Rightarrow> py_error + (string \<rightharpoonup> val) \<times> (string \<times> val) list" where
  "extract_all lib txt text_lower include_confidence [] extracted scores =
     Inr (extracted, scores)"
| "extract_all lib txt text_lower include_confidence ((field_name, ex) # rest) extracted scores =
     (if is_computed ex
      then extract_all lib txt text_lower include_confidence rest extracted scores
      else
        (case extract_field_with_confidence lib txt text_lower ex of
           Inl e \<Rightarrow> Inl e
         | Inr (VResult v c src t) \<Rightarrow>
             extract_all lib txt text_lower include_confidence rest
               (extracted(field_name \<mapsto> (if include_confidence then VResult v c src t else v)))
               (dict_set scores field_name (VFloat c))
         | Inr other \<Rightarrow>
             extract_all lib txt text_lower include_confidence rest extracted scores))"

text \<open>\<^verbatim>\<open>LLMParser.parse\<close>; the extractors are the ordered dictionary of the ontology.\<close>

definition parse ::
    "('r, 'dt) pylib \<Rightarrow> string \<Rightarrow> (string \<times> extractor) list \<Rightarrow> bool
     \<Rightarrow> py_error + (string \<rightharpoonup> val)" where
  "parse lib txt extractors include_confidence =
     (let text_lower = lower txt;
          computed_extractors = filter (\<lambda>kv. is_computed (snd kv)) extractors
      in case extract_all lib txt text_lower include_confidence extractors Map.empty [] of
           Inl e \<Rightarrow> Inl e
         | Inr (extracted, confidence_scores) \<Rightarrow>
             (case calculate_derived_fields extracted text_lower include_confidence of
                Inl e \<Rightarrow> Inl e
              | Inr derived \<Rightarrow>
                  (let computed = calculate_computed_fields derived computed_extractors
                                    include_confidence
                   in Inr (if include_confidence
                           then computed(''_confidence_scores'' \<mapsto> VDict confidence_scores)
                           else computed))))"

section \<open>The constraint evaluator\<close>

text \<open>A constraint of an ontology; \<open>c_formula\<close> is \<open>VNone\<close> where it has no predicate.\<close>

record constraint =
  c_id :: string
  c_category :: string
  c_description :: string
  c_error_message :: string
  c_citation :: string
  c_formula :: val

record violation =
  v_id :: string
  v_category :: string
  v_description :: string
  v_error_message :: string
  v_citation :: string

definition violation_of :: "constraint \<Rightarrow> violation" where
  "violation_of c =
     \<lparr> v_id = c_id c, v_category = c_category c, v_description = c_description c,
       v_error_message = c_error_message c, v_citation = c_citation c \<rparr>"

text \<open>
  Modelled from the spec: \<^verbatim>\<open>SMTVerifier.verify\<close> of \<^verbatim>\<open>aare_core/smt_verifier.py\<close>,
  which \<^verbatim>\<open>server.py\<close> imports and which is not among the sources. Section 4.4 of the
  specification: for each constraint in ontology order, evaluate its predicate formula
  against the facts; if the result is exactly \<open>False\<close>, append the violation; if the
  result is \<open>True\<close> or null, no violation. A constraint with no predicate is trivially
  satisfied, and the formula language is that of the computed extractors. An exception
  of the evaluation leaves the evaluator (it is caught at the boundary).
\<close>

fun check_constraints :: "(string \<rightharpoonup> val) \<Rightarrow> constraint list \<Rightarrow> py_error + violation list" where
  "check_constraints facts [] = Inr []"
| "check_constraints facts (c # cs) =
     (case evaluate_formula (get_value facts False) (c_formula c) of
        Inl e \<Rightarrow> Inl e
      | Inr result \<Rightarrow>
          (case check_constraints facts cs of
             Inl e \<Rightarrow> Inl e
           | Inr violations \<Rightarrow>
               Inr (if result = VBool False then violation_of c # violations else violations)))"

text \<open>
  Modelled from the spec: the verdict of \<^verbatim>\<open>verify\<close>,
  \<^verbatim>\<open>verified = (len(violations) == 0)\<close>, with the list of violations.
\<close>

definition verify :: "(string \<rightharpoonup> val) \<Rightarrow> constraint list \<Rightarrow> py_error + bool \<times> violation list" where
  "verify facts constraints =
     (case check_constraints facts constraints of
        Inl e \<Rightarrow> Inl e
      | Inr violations \<Rightarrow> Inr (violations = [], violations))"

section \<open>Library instances for concrete runs\<close>

text \<open>
  A library whose \<^verbatim>\<open>re.compile\<close> rejects every pattern: it stands for runs in
  which every pattern reached is malformed, or no pattern is reached at all.
\<close>

definition no_regex_lib :: "(unit, unit) pylib" where
  "no_regex_lib =
     \<lparr> re_compile = (\<lambda>p. None), re_search = (\<lambda>r s. None), re_findall = (\<lambda>r s. []),
       lib_strptime = (\<lambda>s f. None), lib_strftime = (\<lambda>d f. []), lib_str = (\<lambda>v. []) \<rparr>"

text \<open>
  A library whose patterns all compile and whose \<^verbatim>\<open>search\<close> finds the one match
  \<open>m\<close>: it stands for a run in which the pattern of the extractor matches so.
\<close>

definition one_match_lib :: "re_match \<Rightarrow> (unit, unit) pylib" where
  "one_match_lib m =
     \<lparr> re_compile = (\<lambda>p. Some ()), re_search = (\<lambda>r s. Some m), re_findall = (\<lambda>r s. []),
       lib_strptime = (\<lambda>s f. None), lib_strftime = (\<lambda>d f. []), lib_str = (\<lambda>v. []) \<rparr>"


section \<open>The operators of the formula language\<close>

text \<open>The operator names that \<^verbatim>\<open>_evaluate_formula\<close> tests for.\<close>

definition known_ops :: "string set" where
  "known_ops =
     {''count_true'', ''count_fields'', ''sum'', ''any'', ''all'', ''gt'', ''>'', ''gte'', ''>='',
      ''lt'', ''<'', ''lte'', ''<='', ''add'', ''+'', ''mul'', ''*'', ''if'', ''not'', ''and'', ''or''}"

definition comparison_ops :: "string set" where
  "comparison_ops = {''gt'', ''>'', ''gte'', ''>='', ''lt'', ''<'', ''lte'', ''<=''}"

definition arithmetic_ops :: "string set" where
  "arithmetic_ops = {''add'', ''+'', ''mul'', ''*''}"

text \<open>A constraint with the given id and predicate; its other fields are empty.\<close>

definition sample_constraint :: "string \<Rightarrow> val \<Rightarrow> constraint" where
  "sample_constraint cid formula =
     \<lparr> c_id = cid, c_category = [], c_description = [], c_error_message = [],
       c_citation = [], c_formula = formula \<rparr>"




text \<open>An int extractor; its pattern captures a decimal number.\<close>

definition count_extractor :: extractor where
  "count_extractor =
     (plain_extractor ''int'')
       \<lparr> ex_pattern := Some (''('' @ backslash @ ''d+(?:'' @ backslash @ ''.'' @ backslash @ ''d+)?)'') \<rparr>"

text \<open>The match of that pattern on the text \<^verbatim>\<open>3.5\<close>.\<close>

definition match_3_5 :: re_match where
  "match_3_5 = \<lparr> m_start = 0, m_end = 3, m_group0 = ''3.5'', m_groups = [Some ''3.5''] \<rparr>"

text \<open>Two computed extractors that depend on each other, each with the default \<open>0\<close>.\<close>

definition cycle_a :: extractor where
  "cycle_a =
     (plain_extractor ''computed'')
       \<lparr> ex_formula := VDict [(''add'', VList [VStr ''b'', VInt 1])], ex_default := VInt 0 \<rparr>"

definition cycle_b :: extractor where
  "cycle_b =
     (plain_extractor ''computed'')
       \<lparr> ex_formula := VDict [(''add'', VList [VStr ''a'', VInt 1])], ex_default := VInt 0 \<rparr>"


section \<open>Predicates on facts\<close>

text \<open>A fact whose confidence, if it carries one, lies in \<open>[0, 1]\<close>.\<close>

definition conf_ok :: "val \<Rightarrow> bool" where
  "conf_ok x = (case x of VResult v c s t \<Rightarrow> 0 \<le> c \<and> c \<le> 1 | other \<Rightarrow> True)"

definition all_conf_ok :: "(string \<rightharpoonup> val) \<Rightarrow> bool" where
  "all_conf_ok m = (\<forall>f x. m f = Some x \<longrightarrow> conf_ok x)"

text \<open>The entries of \<^verbatim>\<open>confidence_scores\<close> are floats in \<open>[0, 1]\<close>.\<close>

definition scores_ok :: "(string \<times> val) list \<Rightarrow> bool" where
  "scores_ok kvs =
     list_all (\<lambda>kv. case snd kv of VFloat c \<Rightarrow> 0 \<le> c \<and> c \<le> 1 | other \<Rightarrow> False) kvs"

text \<open>A fact as \<^verbatim>\<open>set_computed\<close> and \<^verbatim>\<open>set_derived\<close> write it in confidence mode.\<close>

definition computed_fact :: "val option \<Rightarrow> bool" where
  "computed_fact x = (\<exists>v. x = Some (VResult v 1 ''computed'' (Some ''computed'')))"

text \<open>Every key holds what it held in \<open>m0\<close>, or a computed fact.\<close>

definition only_computed_since :: "(string \<rightharpoonup> val) \<Rightarrow> (string \<rightharpoonup> val) \<Rightarrow> bool" where
  "only_computed_since m0 m = (\<forall>f. m f = m0 f \<or> computed_fact (m f))"

text \<open>A computed extractor that counts the approvals, and an ontology with it.\<close>

definition approvals :: extractor where
  "approvals =
     (plain_extractor ''computed'')
       \<lparr> ex_formula := VDict [(''count_true'', VList [VStr ''has_approval''])] \<rparr>"

definition approval_ontology :: "(string \<times> extractor) list" where
  "approval_ontology = [(''has_approval'', has_approval), (''approvals'', approvals)]"

text \<open>The facts of that ontology for the text \<^verbatim>\<open>approved\<close> in confidence mode.\<close>

definition approval_facts :: "string \<rightharpoonup> val" where
  "approval_facts =
     [''has_approval'' \<mapsto> VResult (VBool True) (85 / 100) ''approved'' (Some ''boolean''),
      ''word_count'' \<mapsto> VResult (VInt 1) 1 ''computed'' (Some ''computed''),
      ''approvals'' \<mapsto> VResult (VInt 1) 1 ''computed'' (Some ''computed''),
      ''_confidence_scores'' \<mapsto> VDict [(''has_approval'', VFloat (85 / 100))]]"

section \<open>Keyword-based boolean extraction\<close>

lemmas lower_simps = lower_def lower_char_def upper_letters_def lower_letters_def

lemma has_approval_fields:
  "ex_type has_approval = Some ''boolean''" "ex_pattern has_approval = None"
  "ex_keywords has_approval = [''approved'', ''approve'']"
  "ex_negation_words has_approval = []" "ex_check_negation has_approval = True"
  by (simp_all add: has_approval_def plain_extractor_def)

lemma boolean_by_keywords:
  "ex_type ex = Some ''boolean'' \<Longrightarrow> \<not> truthy_str (ex_pattern ex) \<Longrightarrow>
   extract_field lib txt text_lower ex =
     Inr (VBool (keyword_scan text_lower (ex_check_negation ex) (ex_negation_words ex)
                   (ex_keywords ex)))"
  by (simp add: extract_field_def extract_boolean_def)

text \<open>
  The claim C1 as stated fails: the \<^verbatim>\<open>has_approval\<close> extractor of the default mortgage
  ontology configures no negation words, so the negation window is never looked at and
  the text \<^verbatim>\<open>not approved\<close> gives \<open>has_approval = True\<close>.
\<close>

theorem has_approval_not_approved_is_true:
  "extract_field no_regex_lib ''not approved'' (lower ''not approved'') has_approval
     = Inr (VBool True)"
  by (simp add: boolean_by_keywords has_approval_fields truthy_str_def lower_simps py_in_def)

text \<open>
  C1 (amended). For the \<^verbatim>\<open>has_approval\<close> extractor of the default
  \<^verbatim>\<open>mortgage-compliance-v1\<close> ontology, which has the keywords \<^verbatim>\<open>approved\<close> and
  \<^verbatim>\<open>approve\<close> and no negation words, both \<^verbatim>\<open>not approved\<close> and
  \<^verbatim>\<open>approved, no issues\<close> give \<open>has_approval = True\<close>, whatever the regular expression
  library does. The negation window applies only to configured negation words: with
  \<^verbatim>\<open>not\<close> configured, \<^verbatim>\<open>not approved\<close> gives \<open>False\<close>; with \<^verbatim>\<open>no\<close> configured,
  \<^verbatim>\<open>approved, no issues\<close> still gives \<open>True\<close>, since the window ends with the keyword.
\<close>

theorem has_approval_negation_window:
  "extract_field lib ''not approved'' (lower ''not approved'') has_approval = Inr (VBool True)
   \<and> extract_field lib ''approved, no issues'' (lower ''approved, no issues'') has_approval
       = Inr (VBool True)
   \<and> extract_field lib ''not approved'' (lower ''not approved'')
        (has_approval \<lparr> ex_negation_words := [''not''] \<rparr>) = Inr (VBool False)
   \<and> extract_field lib ''approved, no issues'' (lower ''approved, no issues'')
        (has_approval \<lparr> ex_negation_words := [''no''] \<rparr>) = Inr (VBool True)"
  by (simp add: boolean_by_keywords has_approval_fields truthy_str_def lower_simps py_in_def
        any_negation_def py_slice_def)

section \<open>Keywords with uppercase letters\<close>








section \<open>Null operands and unknown operators\<close>

lemmas evaluate_op = evaluate_formula.simps [where formula = "VDict [(opr, args)]" for opr args]

lemma unknown_op_is_none:
  "opr \<notin> known_ops \<Longrightarrow> evaluate_formula gv (VDict [(opr, args)]) = Inr VNone"
  by (simp add: evaluate_formula.simps [of gv "VDict [(opr, args)]"] known_ops_def)

lemma compare_op_none:
  "eval_leaf gv RefOrLiteral a = Inr l \<Longrightarrow> eval_leaf gv RefOrLiteral b = Inr r \<Longrightarrow>
   l = VNone \<or> r = VNone \<Longrightarrow> compare_op gv opr (VList [a, b]) = Inr VNone"
  by (auto simp: compare_op_def py_len_def py_getitem_def)

lemma comparison_dispatch:
  "opr \<in> comparison_ops \<Longrightarrow>
   evaluate_formula gv (VDict [(opr, args)])
     \<in> {compare_op gv Gt args, compare_op gv Ge args, compare_op gv Lt args,
         compare_op gv Le args}"
  unfolding comparison_ops_def
  by (elim insertE emptyE) (simp_all add: evaluate_op)

lemma arith_result_none: "VNone \<in> set vals \<Longrightarrow> arith_result is_add vals = Inr VNone"
  by (auto simp: arith_result_def list_all_iff)

lemma arithmetic_dispatch:
  "opr \<in> arithmetic_ops \<Longrightarrow> 2 \<le> length xs \<Longrightarrow> eval_args gv RefOrLiteral xs = Inr vals \<Longrightarrow>
   evaluate_formula gv (VDict [(opr, VList xs)]) = arith_result (opr = ''add'' \<or> opr = ''+'') vals"
  unfolding arithmetic_ops_def
  by (elim insertE emptyE) (simp_all add: evaluate_op)

text \<open>
  C5. For the comparison operators \<^verbatim>\<open>gt\<close>, \<^verbatim>\<open>gte\<close>, \<^verbatim>\<open>lt\<close>, \<^verbatim>\<open>lte\<close> (and their
  symbols) on two arguments, if either side, read as a field reference or a literal, is
  \<open>None\<close>, the result is \<open>None\<close>. For \<^verbatim>\<open>add\<close> and \<^verbatim>\<open>mul\<close> (and their symbols) on a
  list of two or more arguments, if any evaluated argument is \<open>None\<close>, the result is
  \<open>None\<close>.
\<close>

theorem null_operand_gives_null:
  "(opr \<in> comparison_ops \<and> eval_leaf gv RefOrLiteral a = Inr l
      \<and> eval_leaf gv RefOrLiteral b = Inr r \<and> (l = VNone \<or> r = VNone)
     \<longrightarrow> evaluate_formula gv (VDict [(opr, VList [a, b])]) = Inr VNone)
   \<and> (opr \<in> arithmetic_ops \<and> 2 \<le> length xs \<and> eval_args gv RefOrLiteral xs = Inr vals
        \<and> VNone \<in> set vals
     \<longrightarrow> evaluate_formula gv (VDict [(opr, VList xs)]) = Inr VNone)"
proof (intro conjI impI)
  assume h: "opr \<in> comparison_ops \<and> eval_leaf gv RefOrLiteral a = Inr l
      \<and> eval_leaf gv RefOrLiteral b = Inr r \<and> (l = VNone \<or> r = VNone)"
  then obtain c where "evaluate_formula gv (VDict [(opr, VList [a, b])])
      = compare_op gv c (VList [a, b])"
    using comparison_dispatch [of opr gv "VList [a, b]"] by auto
  with h show "evaluate_formula gv (VDict [(opr, VList [a, b])]) = Inr VNone"
    by (simp add: compare_op_none)
next
  assume "opr \<in> arithmetic_ops \<and> 2 \<le> length xs \<and> eval_args gv RefOrLiteral xs = Inr vals
        \<and> VNone \<in> set vals"
  then show "evaluate_formula gv (VDict [(opr, VList xs)]) = Inr VNone"
    by (simp add: arithmetic_dispatch arith_result_none)
qed

lemma get_value_missing: "get_value Map.empty ic (VStr k) d = Inr d"
  by (simp add: get_value_def)

text \<open>
  An instance of the theorem for C5: \<^verbatim>\<open>{"gte": ["dti", 43]}\<close> and
  \<^verbatim>\<open>{"mul": [2, "fees"]}\<close> over facts that hold neither field.
\<close>

theorem null_operand_gives_null_witness:
  "''gte'' \<in> comparison_ops
   \<and> eval_leaf (get_value Map.empty False) RefOrLiteral (VStr ''dti'') = Inr VNone
   \<and> eval_leaf (get_value Map.empty False) RefOrLiteral (VInt 43) = Inr (VInt 43)
   \<and> evaluate_formula (get_value Map.empty False)
        (VDict [(''gte'', VList [VStr ''dti'', VInt 43])]) = Inr VNone
   \<and> ''mul'' \<in> arithmetic_ops
   \<and> eval_args (get_value Map.empty False) RefOrLiteral [VInt 2, VStr ''fees''] = Inr [VInt 2, VNone]
   \<and> evaluate_formula (get_value Map.empty False)
        (VDict [(''mul'', VList [VInt 2, VStr ''fees''])]) = Inr VNone"
proof -
  let ?gv = "get_value Map.empty False"
  have a: "''gte'' \<in> comparison_ops" by (simp add: comparison_ops_def)
  have b: "eval_leaf ?gv RefOrLiteral (VStr ''dti'') = Inr VNone"
    by (simp add: eval_leaf_def get_value_def)
  have c: "eval_leaf ?gv RefOrLiteral (VInt 43) = Inr (VInt 43)"
    by (simp add: eval_leaf_def)
  have d: "''mul'' \<in> arithmetic_ops" by (simp add: arithmetic_ops_def)
  have e: "eval_args ?gv RefOrLiteral [VInt 2, VStr ''fees''] = Inr [VInt 2, VNone]"
    by (simp add: eval_leaf_def get_value_def)
  from a b c d e
    null_operand_gives_null [of "''gte''" ?gv "VStr ''dti''" VNone "VInt 43" "VInt 43"]
    null_operand_gives_null [of "''mul''" ?gv _ _ _ _ "[VInt 2, VStr ''fees'']" "[VInt 2, VNone]"]
  show ?thesis by simp
qed

section \<open>The operator if\<close>

text \<open>
  C10. For \<^verbatim>\<open>if\<close> on a list of three arguments only the condition is evaluated (as
  a formula when it is a dictionary, else as a field reference or literal). The branch
  the condition selects is not evaluated: a string is looked up as a field reference
  and every other value, a nested formula included, is returned as it is.
\<close>

theorem if_branch_not_evaluated:
  "(if is_dict c then evaluate_formula gv c else eval_leaf gv RefOrLiteral c) = Inr r \<longrightarrow>
     evaluate_formula gv (VDict [(''if'', VList [c, t, e])])
       = (let branch = (if truthy r then t else e)
          in case branch of VStr s \<Rightarrow> gv branch VNone | other \<Rightarrow> Inr branch)"
  by (simp add: evaluate_formula.simps [of gv "VDict [(''if'', VList [c, t, e])]"]
        if_branch_def eval_leaf_def Let_def)

text \<open>
  An instance of the theorem for C10: \<^verbatim>\<open>{"if": [true, {"add": [1, 2]}, 0]}\<close> returns
  the formula \<^verbatim>\<open>{"add": [1, 2]}\<close> itself, which would evaluate to \<open>3\<close>.
\<close>

theorem if_branch_not_evaluated_witness:
  "eval_leaf (get_value Map.empty False) RefOrLiteral (VBool True) = Inr (VBool True)
   \<and> evaluate_formula (get_value Map.empty False)
        (VDict [(''if'', VList [VBool True, VDict [(''add'', VList [VInt 1, VInt 2])], VInt 0])])
       = Inr (VDict [(''add'', VList [VInt 1, VInt 2])])
   \<and> evaluate_formula (get_value Map.empty False) (VDict [(''add'', VList [VInt 1, VInt 2])])
       = Inr (VInt 3)"
proof -
  let ?gv = "get_value Map.empty False"
  let ?t = "VDict [(''add'', VList [VInt 1, VInt 2])]"
  have a: "eval_leaf ?gv RefOrLiteral (VBool True) = Inr (VBool True)"
    by (simp add: eval_leaf_def)
  have b: "evaluate_formula ?gv ?t = Inr (VInt 3)"
    by (simp add: evaluate_formula.simps [of ?gv ?t] eval_leaf_def arith_result_def
          py_add_def int_of_def)
  from a b if_branch_not_evaluated [of "VBool True" ?gv "VBool True" ?t "VInt 0"]
  show ?thesis by simp
qed

section \<open>Constraints whose predicate is null\<close>

lemma check_constraints_filter:
  "check_constraints facts cs = Inr vs \<Longrightarrow>
   vs = map violation_of
          (filter (\<lambda>c. evaluate_formula (get_value facts False) (c_formula c) = Inr (VBool False)) cs)"
proof (induction cs arbitrary: vs)
  case Nil
  then show ?case by simp
next
  case (Cons c cs)
  then show ?case
    by (auto split: sum.splits if_splits)
qed

lemma check_constraints_all_none:
  "list_all (\<lambda>c. evaluate_formula (get_value facts False) (c_formula c) = Inr VNone) cs \<Longrightarrow>
   check_constraints facts cs = Inr []"
  by (induction cs) auto

text \<open>
  C4. A formula whose operator is none of the operators of the language evaluates to
  \<open>None\<close>. The violations of the constraint evaluator are exactly those of the
  constraints whose predicate evaluates to \<open>False\<close>, in ontology order: a predicate
  that evaluates to \<open>None\<close> (or to anything but \<open>False\<close>) records no violation, and
  when every predicate is \<open>None\<close> the verdict is verified with no violation.
\<close>

theorem null_predicate_no_violation:
  "(opr \<notin> known_ops \<longrightarrow> evaluate_formula gv (VDict [(opr, args)]) = Inr VNone)
   \<and> (check_constraints facts cs = Inr vs \<longrightarrow>
        vs = map violation_of
               (filter (\<lambda>c. evaluate_formula (get_value facts False) (c_formula c)
                               = Inr (VBool False)) cs))
   \<and> (list_all (\<lambda>c. evaluate_formula (get_value facts False) (c_formula c) = Inr VNone) cs
        \<longrightarrow> verify facts cs = Inr (True, []))"
  using check_constraints_filter [of facts cs vs]
  by (auto simp: unknown_op_is_none check_constraints_all_none verify_def)


text \<open>
  An instance of the theorem for C4: a constraint with the unknown operator
  \<^verbatim>\<open>implies\<close> records nothing, and one whose predicate \<^verbatim>\<open>{"gt": [1, 2]}\<close> is
  \<open>False\<close> is the only violation.
\<close>

theorem null_predicate_no_violation_witness:
  "''implies'' \<notin> known_ops
   \<and> evaluate_formula (get_value Map.empty False)
        (VDict [(''implies'', VList [VStr ''is_denial'', VStr ''has_specific_reason''])])
       = Inr VNone
   \<and> check_constraints Map.empty
        [sample_constraint ''REG_B_ADVERSE''
           (VDict [(''implies'', VList [VStr ''is_denial'', VStr ''has_specific_reason''])]),
         sample_constraint ''ONE_GT_TWO'' (VDict [(''gt'', VList [VInt 1, VInt 2])])]
       = Inr [violation_of
                (sample_constraint ''ONE_GT_TWO'' (VDict [(''gt'', VList [VInt 1, VInt 2])]))]
   \<and> verify Map.empty
        [sample_constraint ''REG_B_ADVERSE''
           (VDict [(''implies'', VList [VStr ''is_denial'', VStr ''has_specific_reason''])])]
       = Inr (True, [])"
proof -
  let ?gv = "get_value Map.empty False"
  let ?u = "VDict [(''implies'', VList [VStr ''is_denial'', VStr ''has_specific_reason''])]"
  let ?g = "VDict [(''gt'', VList [VInt 1, VInt 2])]"
  have a: "''implies'' \<notin> known_ops" by (simp add: known_ops_def)
  have g: "evaluate_formula ?gv ?g = Inr (VBool False)"
    by (simp add: evaluate_op compare_op_def py_len_def py_getitem_def eval_leaf_def
          num_compare_def num_of_def cmp_ord_def)
  have u: "evaluate_formula ?gv ?u = Inr VNone"
    using a by (rule unknown_op_is_none)
  have c: "check_constraints Map.empty
             [sample_constraint ''REG_B_ADVERSE'' ?u, sample_constraint ''ONE_GT_TWO'' ?g]
           = Inr [violation_of (sample_constraint ''ONE_GT_TWO'' ?g)]"
    by (simp add: g u sample_constraint_def)
  from a c
    null_predicate_no_violation [of "''implies''" ?gv "VList [VStr ''is_denial'', VStr ''has_specific_reason'']"
      Map.empty "[sample_constraint ''REG_B_ADVERSE'' ?u]" "[]"]
  show ?thesis by (simp add: u sample_constraint_def)
qed

section \<open>Money suffixes\<close>






section \<open>Malformed patterns and failed conversions\<close>


text \<open>
  A conversion failure is not caught: an int extractor whose first group is \<^verbatim>\<open>3.5\<close>
  leaves \<^verbatim>\<open>_extract_field\<close> with the \<open>ValueError\<close> of \<^verbatim>\<open>int\<close>.
\<close>

lemma int_conversion_raises:
  "extract_field (one_match_lib match_3_5) ''3.5'' (lower ''3.5'') count_extractor = Inl ValueError"
  by (simp add: extract_field_def extract_numeric_def count_extractor_def plain_extractor_def
        truthy_str_def get_compiled_pattern_def one_match_lib_def match_3_5_def backslash_def
        parse_numeric_def drop_commas_def py_int_def split_sign_def strip_def is_space_def
        valid_digits_def is_digit_def)






section \<open>Settlement of computed fields\<close>

lemma settle_pass_bound:
  "settle ic names max_iterations iteration remaining extracted = (extracted', passes, left) \<Longrightarrow>
   iteration \<le> max_iterations \<Longrightarrow> passes \<le> max_iterations"
proof (induction ic names max_iterations iteration remaining extracted
       rule: settle.induct)
  case (1 ic names max_iterations iteration remaining extracted)
  show ?case
  proof (cases "remaining \<noteq> [] \<and> iteration < max_iterations")
    case True
    obtain e1 done1 where p: "compute_pass ic names remaining extracted = (e1, done1)"
      by (cases "compute_pass ic names remaining extracted")
    from True p "1.prems"(1)
    have "settle ic names max_iterations (iteration + 1) (pop_all done1 remaining) e1
            = (extracted', passes, left)"
      by (simp add: settle.simps [of ic names max_iterations iteration remaining extracted])
    moreover from True have "iteration + 1 \<le> max_iterations" by simp
    ultimately show ?thesis
      using "1.IH" [OF True p [symmetric] refl] by blast
  next
    case False
    with "1.prems" show ?thesis
      by (simp add: settle.simps [of ic names max_iterations iteration remaining extracted])
  qed
qed

text \<open>
  C3, on two computed fields that depend on each other, each with the default \<open>0\<close>:
  the loop makes three passes (\<open>N + 1\<close> for \<open>N = 2\<close>) and ends with both fields still
  in \<^verbatim>\<open>remaining\<close>; \<^verbatim>\<open>_calculate_computed_fields\<close> then returns the facts as they
  were, so neither field is assigned its default.
\<close>

theorem cycle_fields_get_no_default:
  "settle False [''a'', ''b''] 3 0 [(''a'', cycle_a), (''b'', cycle_b)] Map.empty
     = (Map.empty, 3, [(''a'', cycle_a), (''b'', cycle_b)])
   \<and> calculate_computed_fields Map.empty [(''a'', cycle_a), (''b'', cycle_b)] False ''a'' = None
   \<and> calculate_computed_fields Map.empty [(''a'', cycle_a), (''b'', cycle_b)] False ''b'' = None
   \<and> ex_default cycle_a = VInt 0 \<and> ex_default cycle_b = VInt 0"
proof -
  have p: "compute_pass False [''a'', ''b''] [(''a'', cycle_a), (''b'', cycle_b)] Map.empty
             = (Map.empty, [])"
    by (simp add: cycle_a_def cycle_b_def plain_extractor_def Let_def)
  have s: "settle False [''a'', ''b''] 3 0 [(''a'', cycle_a), (''b'', cycle_b)] Map.empty
     = (Map.empty, 3, [(''a'', cycle_a), (''b'', cycle_b)])"
    by (simp add: settle.simps p pop_all_def del: compute_pass.simps)
  have "calculate_computed_fields Map.empty [(''a'', cycle_a), (''b'', cycle_b)] False
          = fst (settle False [''a'', ''b''] 3 0 [(''a'', cycle_a), (''b'', cycle_b)] Map.empty)"
    by (simp add: calculate_computed_fields_def numeral_3_eq_3)
  with s have c: "calculate_computed_fields Map.empty [(''a'', cycle_a), (''b'', cycle_b)] False
          = Map.empty"
    by simp
  have d: "ex_default cycle_a = VInt 0" "ex_default cycle_b = VInt 0"
    by (simp_all add: cycle_a_def cycle_b_def)
  from s c d show ?thesis by simp
qed

section \<open>Confidence\<close>

lemma calculate_confidence_range:
  "calculate_confidence text_lower ex v = Inr c \<Longrightarrow> 0 \<le> c \<and> c \<le> 1"
  unfolding calculate_confidence_def Let_def
  by (auto split: if_splits sum.splits val.splits)

lemma with_confidence_ok:
  "extract_field_with_confidence lib txt text_lower ex = Inr x \<Longrightarrow> conf_ok x"
  unfolding extract_field_with_confidence_def
  by (auto simp: conf_ok_def dest: calculate_confidence_range split: sum.splits if_splits)

lemma dict_set_scores_ok:
  "scores_ok s \<Longrightarrow> 0 \<le> c \<Longrightarrow> c \<le> 1 \<Longrightarrow> scores_ok (dict_set s k (VFloat c))"
  by (induction s) (auto simp: scores_ok_def)

lemma extract_all_ok:
  "extract_all lib txt text_lower True exs extracted scores = Inr (e', s') \<Longrightarrow>
   all_conf_ok extracted \<Longrightarrow> scores_ok scores \<Longrightarrow> all_conf_ok e' \<and> scores_ok s'"
proof (induction exs arbitrary: extracted scores)
  case Nil
  then show ?case by simp
next
  case (Cons a exs)
  obtain field_name ex where a: "a = (field_name, ex)" by (cases a)
  show ?case
  proof (cases "is_computed ex")
    case True
    with Cons a show ?thesis by simp
  next
    case False
    show ?thesis
    proof (cases "extract_field_with_confidence lib txt text_lower ex")
      case (Inl e)
      with Cons.prems a False show ?thesis by simp
    next
      case (Inr x)
      then have ok: "conf_ok x" by (rule with_confidence_ok)
      show ?thesis
      proof (cases x)
        case (VResult v c src t)
        with ok have c: "0 \<le> c" "c \<le> 1" by (simp_all add: conf_ok_def)
        from Cons.prems(2) c have "all_conf_ok (extracted(field_name \<mapsto> VResult v c src t))"
          by (simp add: all_conf_ok_def conf_ok_def)
        moreover from Cons.prems(3) c have "scores_ok (dict_set scores field_name (VFloat c))"
          by (simp add: dict_set_scores_ok)
        moreover from Cons.prems(1) a False Inr VResult
        have "extract_all lib txt text_lower True exs
                (extracted(field_name \<mapsto> VResult v c src t))
                (dict_set scores field_name (VFloat c)) = Inr (e', s')"
          by simp
        ultimately show ?thesis using Cons.IH by blast
      qed (use Cons a False Inr in simp_all)
    qed
  qed
qed

lemma compute_pass_invariant:
  assumes step: "\<And>m f v. I m \<Longrightarrow> I (set_computed ic m f v)"
  shows "compute_pass ic names remaining extracted = (e', done') \<Longrightarrow> I extracted \<Longrightarrow> I e'"
proof (induction remaining arbitrary: extracted e' done')
  case Nil
  then show ?case by simp
next
  case (Cons a remaining)
  obtain field_name ex where a: "a = (field_name, ex)" by (cases a)
  have d: "I (set_default ic extracted field_name dflt)" for dflt
    using Cons.prems(2) step by (simp add: set_default_def)
  have c: "I (set_computed ic extracted field_name v)" for v
    using Cons.prems(2) step by simp
  from Cons.prems(1) show ?case
    unfolding a compute_pass.simps Let_def
    using Cons.IH [OF _ Cons.prems(2)] Cons.IH [OF _ d] Cons.IH [OF _ c]
    by (auto split: prod.splits sum.splits if_splits)
qed

lemma settle_invariant:
  assumes step: "\<And>m f v. I m \<Longrightarrow> I (set_computed ic m f v)"
  shows "I extracted \<Longrightarrow> I (fst (settle ic names max_iterations iteration remaining extracted))"
proof (induction "max_iterations - iteration" arbitrary: iteration remaining extracted)
  case 0
  then show ?case
    by (simp add: settle.simps [of ic names max_iterations iteration remaining extracted])
next
  case (Suc n)
  show ?case
  proof (cases "remaining \<noteq> [] \<and> iteration < max_iterations")
    case True
    obtain e1 done1 where p: "compute_pass ic names remaining extracted = (e1, done1)"
      by (cases "compute_pass ic names remaining extracted")
    have "I e1"
      using compute_pass_invariant [where I = I and ic = ic, OF step p Suc.prems] .
    moreover from Suc.hyps(2) have "n = max_iterations - (iteration + 1)" by simp
    ultimately
    have "I (fst (settle ic names max_iterations (iteration + 1) (pop_all done1 remaining) e1))"
      using Suc.hyps(1) by blast
    with True p show ?thesis
      by (simp add: settle.simps [of ic names max_iterations iteration remaining extracted])
  next
    case False
    with Suc.prems show ?thesis
      by (auto simp: settle.simps [of ic names max_iterations iteration remaining extracted])
  qed
qed

lemma computed_fields_invariant:
  assumes step: "\<And>m f v. I m \<Longrightarrow> I (set_computed ic m f v)"
  shows "I extracted \<Longrightarrow> I (calculate_computed_fields extracted ces ic)"
  unfolding calculate_computed_fields_def
  using settle_invariant [where I = I and ic = ic, OF step] by blast

lemma derived_fields_invariant:
  assumes step: "\<And>m f v. I m \<Longrightarrow> I (set_computed ic m f v)"
  shows "calculate_derived_fields extracted text_lower ic = Inr d \<Longrightarrow> I extracted \<Longrightarrow> I d"
  unfolding calculate_derived_fields_def Let_def
  by (auto split: sum.splits if_splits intro: step)

lemma set_computed_conf_ok: "all_conf_ok m \<Longrightarrow> all_conf_ok (set_computed True m f v)"
  by (simp add: all_conf_ok_def set_computed_def conf_ok_def)

lemma set_computed_only_computed:
  "only_computed_since m0 m \<Longrightarrow> only_computed_since m0 (set_computed True m f v)"
  by (simp add: only_computed_since_def set_computed_def computed_fact_def)

lemma derived_word_count:
  "calculate_derived_fields extracted text_lower True = Inr d \<Longrightarrow> computed_fact (d ''word_count'')"
  unfolding calculate_derived_fields_def Let_def
  by (auto simp: set_computed_def computed_fact_def split: sum.splits if_splits)

lemma parse_confidence:
  assumes "parse lib txt exs True = Inr facts"
  shows "all_conf_ok facts"
    and "\<exists>scores. facts ''_confidence_scores'' = Some (VDict scores) \<and> scores_ok scores"
    and "computed_fact (facts ''word_count'')"
proof -
  let ?ces = "filter (\<lambda>kv. is_computed (snd kv)) exs"
  from assms obtain extracted scores derived where
    e: "extract_all lib txt (lower txt) True exs Map.empty [] = Inr (extracted, scores)" and
    d: "calculate_derived_fields extracted (lower txt) True = Inr derived" and
    f: "facts = (calculate_computed_fields derived ?ces True)
                  (''_confidence_scores'' \<mapsto> VDict scores)"
    unfolding parse_def Let_def by (auto split: sum.splits prod.splits)
  from e have ok: "all_conf_ok extracted" "scores_ok scores"
    using extract_all_ok [of lib "txt" "lower txt" exs Map.empty "[]" extracted scores]
    by (simp_all add: all_conf_ok_def scores_ok_def)
  have "all_conf_ok derived"
    using derived_fields_invariant [where I = all_conf_ok and ic = True,
            OF set_computed_conf_ok d ok(1)] .
  then have "all_conf_ok (calculate_computed_fields derived ?ces True)"
    using computed_fields_invariant [where I = all_conf_ok and ic = True,
            OF set_computed_conf_ok] by blast
  with f show "all_conf_ok facts"
    by (simp add: all_conf_ok_def conf_ok_def)
  from f ok(2) show "\<exists>scores. facts ''_confidence_scores'' = Some (VDict scores) \<and> scores_ok scores"
    by simp
  have "only_computed_since derived derived" by (simp add: only_computed_since_def)
  then have "only_computed_since derived (calculate_computed_fields derived ?ces True)"
    using computed_fields_invariant [where I = "only_computed_since derived" and ic = True,
            OF set_computed_only_computed] by blast
  then have "(calculate_computed_fields derived ?ces True) ''word_count'' = derived ''word_count''
      \<or> computed_fact ((calculate_computed_fields derived ?ces True) ''word_count'')"
    unfolding only_computed_since_def by (rule spec)
  with derived_word_count [OF d]
  have "computed_fact ((calculate_computed_fields derived ?ces True) ''word_count'')"
    by auto
  with f show "computed_fact (facts ''word_count'')" by simp
qed

text \<open>
  C8. Every confidence that \<^verbatim>\<open>_calculate_confidence\<close> returns lies in \<open>[0, 1]\<close>. In
  confidence mode every fact of the result of \<^verbatim>\<open>parse\<close> that carries a confidence
  carries one in \<open>[0, 1]\<close>, and so does every entry of \<^verbatim>\<open>_confidence_scores\<close>. A fact
  written by \<^verbatim>\<open>set_computed\<close> or \<^verbatim>\<open>set_derived\<close> has confidence \<open>1\<close> and source
  \<^verbatim>\<open>computed\<close>: \<^verbatim>\<open>word_count\<close> always, and every key that the built-in derivations
  or the computed fields add or change.
\<close>

theorem confidence_bounds:
  "(calculate_confidence text_lower ex v = Inr c \<longrightarrow> 0 \<le> c \<and> c \<le> 1)
   \<and> (parse lib txt exs True = Inr facts \<longrightarrow>
        (\<forall>f w k s t. facts f = Some (VResult w k s t) \<longrightarrow> 0 \<le> k \<and> k \<le> 1)
        \<and> (\<exists>scores. facts ''_confidence_scores'' = Some (VDict scores) \<and> scores_ok scores)
        \<and> (\<exists>w. facts ''word_count'' = Some (VResult w 1 ''computed'' (Some ''computed''))))
   \<and> set_computed True m f v f = Some (VResult v 1 ''computed'' (Some ''computed''))
   \<and> (calculate_derived_fields m text_lower True = Inr d \<longrightarrow>
        (\<forall>g. d g = m g \<or> (\<exists>w. d g = Some (VResult w 1 ''computed'' (Some ''computed'')))))
   \<and> (\<forall>g. calculate_computed_fields m ces True g = m g
          \<or> (\<exists>w. calculate_computed_fields m ces True g
                    = Some (VResult w 1 ''computed'' (Some ''computed''))))"
proof (intro conjI impI)
  show "0 \<le> c" "c \<le> 1" if "calculate_confidence text_lower ex v = Inr c"
    using calculate_confidence_range [OF that] by simp_all
  show "set_computed True m f v f = Some (VResult v 1 ''computed'' (Some ''computed''))"
    by (simp add: set_computed_def)
  have r: "only_computed_since m m" by (simp add: only_computed_since_def)
  show "\<forall>g. d g = m g \<or> (\<exists>w. d g = Some (VResult w 1 ''computed'' (Some ''computed'')))"
    if "calculate_derived_fields m text_lower True = Inr d"
    using derived_fields_invariant [where I = "only_computed_since m" and ic = True,
            OF set_computed_only_computed that r]
    by (simp add: only_computed_since_def computed_fact_def)
  show "\<forall>g. calculate_computed_fields m ces True g = m g
          \<or> (\<exists>w. calculate_computed_fields m ces True g
                    = Some (VResult w 1 ''computed'' (Some ''computed'')))"
    using computed_fields_invariant [where I = "only_computed_since m" and ic = True,
            OF set_computed_only_computed r]
    by (simp add: only_computed_since_def computed_fact_def)
  assume p: "parse lib txt exs True = Inr facts"
  show "\<forall>f w k s t. facts f = Some (VResult w k s t) \<longrightarrow> 0 \<le> k \<and> k \<le> 1"
    using parse_confidence(1) [OF p] by (fastforce simp: all_conf_ok_def conf_ok_def)
  show "\<exists>scores. facts ''_confidence_scores'' = Some (VDict scores) \<and> scores_ok scores"
    using parse_confidence(2) [OF p] .
  show "\<exists>w. facts ''word_count'' = Some (VResult w 1 ''computed'' (Some ''computed''))"
    using parse_confidence(3) [OF p] by (simp add: computed_fact_def)
qed

lemma parse_approved:
  "parse no_regex_lib ''approved'' approval_ontology True = Inr approval_facts"
proof -
  define e :: "string \<rightharpoonup> val" where
    "e = [''has_approval'' \<mapsto> VResult (VBool True) (85 / 100) ''approved'' (Some ''boolean'')]"
  define d where "d = e(''word_count'' \<mapsto> VResult (VInt 1) 1 ''computed'' (Some ''computed''))"
  define r where "r = d(''approvals'' \<mapsto> VResult (VInt 1) 1 ''computed'' (Some ''computed''))"
  have l: "lower ''approved'' = ''approved''" by (simp add: lower_simps)
  have x: "extract_field_with_confidence no_regex_lib ''approved'' ''approved'' has_approval
             = Inr (VResult (VBool True) (85 / 100) ''approved'' (Some ''boolean''))"
    by (simp add: extract_field_with_confidence_def boolean_by_keywords has_approval_fields
          truthy_str_def py_in_def calculate_confidence_def find_source_text_def lower_simps)
  have c: "is_computed approvals" "\<not> is_computed has_approval"
    by (simp_all add: is_computed_def approvals_def plain_extractor_def has_approval_def)
  have a: "extract_all no_regex_lib ''approved'' ''approved'' True approval_ontology Map.empty []
             = Inr (e, [(''has_approval'', VFloat (85 / 100))])"
    by (simp add: approval_ontology_def c x e_def)
  have dd: "calculate_derived_fields e ''approved'' True = Inr d"
    by (simp add: calculate_derived_fields_def get_value_def set_computed_def is_space_def
          d_def e_def)
  have f: "ex_formula approvals = VDict [(''count_true'', VList [VStr ''has_approval''])]"
    "ex_default approvals = VNone"
    by (simp_all add: approvals_def plain_extractor_def)
  have ev: "evaluate_formula (get_value d True)
              (VDict [(''count_true'', VList [VStr ''has_approval''])]) = Inr (VInt 1)"
    by (simp add: evaluate_op as_list_def get_value_def d_def e_def)
  have "d ''approvals'' = None" by (simp add: d_def e_def)
  then have p: "compute_pass True [''approvals''] [(''approvals'', approvals)] d
             = (r, [''approvals''])"
    by (simp add: f ev set_computed_def Let_def r_def)
  have s: "settle True [''approvals''] 2 0 [(''approvals'', approvals)] d = (r, 1, [])"
    by (simp add: settle.simps p pop_all_def del: compute_pass.simps)
  have "calculate_computed_fields d [(''approvals'', approvals)] True
          = fst (settle True [''approvals''] 2 0 [(''approvals'', approvals)] d)"
    by (simp add: calculate_computed_fields_def numeral_2_eq_2)
  with s have cc: "calculate_computed_fields d [(''approvals'', approvals)] True = r"
    by simp
  have fl: "filter (\<lambda>kv. is_computed (snd kv)) approval_ontology = [(''approvals'', approvals)]"
    by (simp add: approval_ontology_def c)
  have "parse no_regex_lib ''approved'' approval_ontology True
          = Inr (r(''_confidence_scores'' \<mapsto> VDict [(''has_approval'', VFloat (85 / 100))]))"
    unfolding parse_def Let_def l fl a by (simp add: dd cc)
  also have "r(''_confidence_scores'' \<mapsto> VDict [(''has_approval'', VFloat (85 / 100))])
               = approval_facts"
    by (simp add: r_def d_def e_def approval_facts_def)
  finally show ?thesis .
qed

text \<open>
  An instance of the theorem for C8: the text \<^verbatim>\<open>approved\<close> in confidence mode, with
  the default \<^verbatim>\<open>has_approval\<close> extractor and a computed count of approvals.
\<close>

theorem confidence_bounds_witness:
  "calculate_confidence (lower ''approved'') has_approval (VBool True) = Inr (85 / 100)
   \<and> (0::rat) \<le> 85 / 100 \<and> (85 / 100 :: rat) \<le> 1
   \<and> parse no_regex_lib ''approved'' approval_ontology True = Inr approval_facts
   \<and> approval_facts ''has_approval''
       = Some (VResult (VBool True) (85 / 100) ''approved'' (Some ''boolean''))
   \<and> approval_facts ''approvals'' = Some (VResult (VInt 1) 1 ''computed'' (Some ''computed''))
   \<and> approval_facts ''word_count'' = Some (VResult (VInt 1) 1 ''computed'' (Some ''computed''))
   \<and> approval_facts ''_confidence_scores'' = Some (VDict [(''has_approval'', VFloat (85 / 100))])
   \<and> scores_ok [(''has_approval'', VFloat (85 / 100))]"
proof -
  have k: "calculate_confidence (lower ''approved'') has_approval (VBool True) = Inr (85 / 100)"
    by (simp add: calculate_confidence_def has_approval_fields truthy_str_def lower_simps
          py_in_def)
  from k parse_approved
    confidence_bounds [of "lower ''approved''" has_approval "VBool True" "85 / 100" no_regex_lib "''approved''"
          approval_ontology approval_facts]
  show ?thesis by (simp add: approval_facts_def)
qed

end
